theory Spec2Isabelle
  imports Complex_Main "HOL-Library.Word" "HOL-Library.AList"
begin

unbundle bit_operations_syntax

section \<open>Values, failures and the host\<close>

text \<open>
  The serializers of \<^verbatim>\<open>Pyro5/serializers.py\<close> work on Python values. A value is
  modelled by the datatype \<open>pyval\<close>: the literals the wire formats carry, the scalar
  kinds the msgpack adapter encodes as extension values, and class instances.
  \<^item> a \<open>float\<close> is its IEEE-754 binary64 bit pattern, a \<open>complex\<close> a pair of them;
  \<^item> a \<open>set\<close> is the list of its elements in iteration order, a \<open>dict\<close> the list of
    its items in insertion order (keys distinct, as in a Python dict);
  \<^item> a \<open>uuid.UUID\<close> is its 128-bit integer, a \<open>datetime.date\<close> its proleptic
    Gregorian ordinal, a \<open>decimal.Decimal\<close> its string form;
  \<^item> an instance is \<open>PObj cls args dict slots\<close>: the qualified name of its class, its
    \<open>args\<close> (of an exception), its \<open>__dict__\<close> (\<open>None\<close>: the class has none) and
    the values of its slots.
\<close>

type_synonym byte = "8 word"
type_synonym bytes = "byte list"

record dtfields =
  dt_year :: int
  dt_month :: int
  dt_day :: int
  dt_hour :: int
  dt_minute :: int
  dt_second :: int
  dt_microsecond :: int

text \<open>
  A \<open>tzinfo\<close> object is its offset from UTC in seconds and its truth value. The
  classes of the standard library define neither \<open>__bool__\<close> nor \<open>__len__\<close>, so
  their instances are true; a subclass may define either, and its instances may be false.
\<close>

datatype tzinfo = TzInfo int bool

definition tz_true :: "tzinfo \<Rightarrow> bool" where
  "tz_true z = (case z of TzInfo offset b \<Rightarrow> b)"

datatype pyval =
    PNone
  | PBool bool
  | PInt int
  | PFloat "64 word"
  | PComplex "64 word" "64 word"
  | PStr string
  | PBytes bytes
  | PByteArray bytes
  | PList "pyval list"
  | PTuple "pyval list"
  | PSet "pyval list"
  | PDict "(pyval \<times> pyval) list"
  | PUUID "128 word"
  | PDecimal string
  | PDatetime dtfields "tzinfo option"
  | PDate int
  | PExtType int bytes
  | PObj string "pyval list" "(string \<times> pyval) list option" "(string \<times> pyval) list"

type_synonym pydict = "(pyval \<times> pyval) list"

text \<open>
  The exceptions the code raises or lets through. A failure is the exception together
  with the warnings written to the log \<open>Pyro5.serializers\<close> before it was raised: the
  only logging statement of the module stands right before a \<open>raise\<close>.
\<close>

datatype error =
    SecurityError string
  | SerializeError string
  | ValueError string
  | TypeError
  | AttributeError
  | KeyError
  | IndexError
  | UnicodeDecodeError
  | UnicodeEncodeError
  | StructError
  | OverflowError
  | ImportError
  | NotImplementedError
  | RecursionError
  | HostError string

type_synonym failure = "error \<times> string list"

definition raise :: "error \<Rightarrow> failure + 'a" where
  "raise e = Inl (e, [])"

definition bind :: "failure + 'a \<Rightarrow> ('a \<Rightarrow> failure + 'b) \<Rightarrow> failure + 'b" where
  "bind m f = (case m of Inl e \<Rightarrow> Inl e | Inr x \<Rightarrow> f x)"

text \<open>
  What a name of a module is bound to: a class (by its qualified name) or some other
  object. The modules \<open>Pyro5.errors\<close> and \<open>Pyro5.core\<close> are not among the sources, and
  \<open>builtins\<close>, \<open>sqlite3\<close> and the object protocol belong to the interpreter; the
  record \<open>host\<close> holds what the serializers ask of them.
\<close>

datatype modattr = MClass string | MOther

record host =
  utf8_decode :: "bytes \<Rightarrow> string option"
    \<comment> \<open>\<open>bytes.decode("utf-8")\<close>; \<open>None\<close> is UnicodeDecodeError\<close>
  errors_ns :: "(string \<times> modattr) list"
    \<comment> \<open>\<open>vars(Pyro5.errors)\<close>\<close>
  builtins_ns :: "(string \<times> modattr) list"
    \<comment> \<open>\<open>vars(builtins)\<close>\<close>
  sqlite3_ns :: "(string \<times> modattr) list option"
    \<comment> \<open>\<open>vars(sqlite3)\<close>; \<open>None\<close> when the import fails\<close>
  supers :: "string \<Rightarrow> string list"
    \<comment> \<open>the classes a class is a subclass of, itself included\<close>
  construct :: "string \<Rightarrow> pyval list \<Rightarrow> failure + pyval"
    \<comment> \<open>calling a class with positional arguments\<close>
  descr_set :: "pyval \<Rightarrow> string \<Rightarrow> pyval \<Rightarrow> (failure + pyval) option"
    \<comment> \<open>\<open>setattr\<close> on a name for which the type has a data descriptor (\<open>args\<close>,
        \<open>__traceback__\<close>, ...); \<open>None\<close> when it has none\<close>
  setstate_from_dict :: "string \<Rightarrow> pyval \<Rightarrow> failure + pyval"
    \<comment> \<open>\<open>C.__new__(C)\<close> followed by \<open>__setstate_from_dict__(state)\<close>, for a class
        of \<open>Pyro5.core\<close>\<close>
  getstate :: "pyval \<Rightarrow> (failure + pyval) option"
    \<comment> \<open>\<open>obj.__getstate__()\<close>; \<open>None\<close> when the object has no such method\<close>
  slots_of :: "string \<Rightarrow> string list option"
    \<comment> \<open>the \<open>__slots__\<close> of a class; \<open>None\<close> when it has none\<close>
  obj_str :: "pyval \<Rightarrow> string"
    \<comment> \<open>\<open>str(obj)\<close> of a float and of an instance\<close>
  isoformat :: "pyval \<Rightarrow> string"
    \<comment> \<open>\<open>obj.isoformat()\<close> of a datetime or date\<close>
  timestamp :: "dtfields \<Rightarrow> tzinfo option \<Rightarrow> failure + 64 word"
    \<comment> \<open>\<open>obj.timestamp()\<close> of a datetime with these fields and this tzinfo: POSIX
        seconds, as a double\<close>
  fromtimestamp :: "64 word \<Rightarrow> failure + dtfields"
    \<comment> \<open>\<open>datetime.datetime.fromtimestamp(t)\<close>: local time, no tzinfo\<close>
  int_max_str_digits :: nat
    \<comment> \<open>\<open>sys.get_int_max_str_digits()\<close>; 0 is no limit\<close>
  float_of :: "pyval \<Rightarrow> failure + 64 word"
    \<comment> \<open>\<open>float(v)\<close>\<close>
  b64encode :: "bytes \<Rightarrow> string"
    \<comment> \<open>the base-64 text of a byte string\<close>
  serpent_instance :: "pyval \<Rightarrow> failure + pyval"
    \<comment> \<open>the literal \<open>serpent\<close> writes for an instance of a class\<close>
  recursion_limit :: nat
    \<comment> \<open>\<open>sys.getrecursionlimit()\<close>\<close>

section \<open>Strings and dictionaries\<close>

fun contains_dunder :: "string \<Rightarrow> bool" where
  "contains_dunder (a # b # s) = ((a = CHR ''_'' \<and> b = CHR ''_'') \<or> contains_dunder (b # s))"
| "contains_dunder _ = False"

definition startswith :: "string \<Rightarrow> string \<Rightarrow> bool" where
  "startswith s p = (take (length p) s = p)"

definition endswith :: "string \<Rightarrow> string \<Rightarrow> bool" where
  "endswith s p = (length p \<le> length s \<and> drop (length s - length p) s = p)"

text \<open>\<open>s.split('.', n)\<close>: at most \<open>n\<close> splits, from the left.\<close>

fun split_dot :: "nat \<Rightarrow> string \<Rightarrow> string list" where
  "split_dot 0 s = [s]"
| "split_dot (Suc n) s =
     (if CHR ''.'' \<in> set s
      then takeWhile (\<lambda>c. c \<noteq> CHR ''.'') s # split_dot n (tl (dropWhile (\<lambda>c. c \<noteq> CHR ''.'') s))
      else [s])"

definition index :: "'a list \<Rightarrow> nat \<Rightarrow> failure + 'a" where
  "index xs i = (if i < length xs then Inr (xs ! i) else raise IndexError)"

definition getitem :: "pydict \<Rightarrow> string \<Rightarrow> failure + pyval" where
  "getitem d k = (case map_of d (PStr k) of None \<Rightarrow> raise KeyError | Some v \<Rightarrow> Inr v)"

definition float_is_zero :: "64 word \<Rightarrow> bool" where
  "float_is_zero w = (w AND 0x7FFFFFFFFFFFFFFF = 0)"

text \<open>
  The number a binary64 pattern with a normal exponent stands for: sign, 11 bits of biased
  exponent, 52 bits of fraction.
\<close>

definition double_value :: "64 word \<Rightarrow> real" where
  "double_value w =
     (let e = uint (drop_bit 52 w AND 0x7FF); m = uint (w AND 0xFFFFFFFFFFFFF)
      in (if bit w 63 then - 1 else 1) * (1 + real_of_int m / 2 ^ 52) *
         (if 1023 \<le> e then 2 ^ nat (e - 1023) else 1 / 2 ^ nat (1023 - e)))"

definition decimal_is_zero :: "string \<Rightarrow> bool" where
  "decimal_is_zero s =
     (let m = takeWhile (\<lambda>c. c \<noteq> CHR ''E'') s
      in CHR ''0'' \<in> set m \<and> set m \<subseteq> set ''+-0.'')"

text \<open>Truth value testing; an instance is true (no \<open>__bool__\<close>, no \<open>__len__\<close>).\<close>

fun truthy :: "pyval \<Rightarrow> bool" where
  "truthy PNone = False"
| "truthy (PBool b) = b"
| "truthy (PInt i) = (i \<noteq> 0)"
| "truthy (PFloat x) = (\<not> float_is_zero x)"
| "truthy (PComplex r i) = (\<not> (float_is_zero r \<and> float_is_zero i))"
| "truthy (PStr s) = (s \<noteq> [])"
| "truthy (PBytes b) = (b \<noteq> [])"
| "truthy (PByteArray b) = (b \<noteq> [])"
| "truthy (PList xs) = (xs \<noteq> [])"
| "truthy (PTuple xs) = (xs \<noteq> [])"
| "truthy (PSet xs) = (xs \<noteq> [])"
| "truthy (PDict d) = (d \<noteq> [])"
| "truthy (PDecimal s) = (\<not> decimal_is_zero s)"
| "truthy _ = True"

fun hashable :: "pyval \<Rightarrow> bool" where
  "hashable (PList xs) = False"
| "hashable (PSet xs) = False"
| "hashable (PDict d) = False"
| "hashable (PByteArray b) = False"
| "hashable (PTuple xs) = (\<forall>x \<in> set xs. hashable x)"
| "hashable _ = True"

text \<open>Iterating a value, as argument unpacking \<open>f(*v)\<close> does.\<close>

fun iterate :: "pyval \<Rightarrow> failure + pyval list" where
  "iterate (PList xs) = Inr xs"
| "iterate (PTuple xs) = Inr xs"
| "iterate (PSet xs) = Inr xs"
| "iterate (PDict d) = Inr (map fst d)"
| "iterate (PStr s) = Inr (map (\<lambda>c. PStr [c]) s)"
| "iterate (PBytes b) = Inr (map (\<lambda>x. PInt (uint x)) b)"
| "iterate (PByteArray b) = Inr (map (\<lambda>x. PInt (uint x)) b)"
| "iterate (PExtType c b) = Inr [PInt c, PBytes b]"
| "iterate _ = raise TypeError"

section \<open>Reconstruction: \<open>SerializerBase.dict_to_class\<close>\<close>

text \<open>
  \<open>issubclass(t, base)\<close> for an attribute of a module: TypeError when \<open>t\<close> is not a
  class.
\<close>

definition issubclass :: "host \<Rightarrow> modattr \<Rightarrow> string \<Rightarrow> failure + bool" where
  "issubclass h t base =
     (case t of MClass c \<Rightarrow> Inr (base \<in> set (supers h c)) | MOther \<Rightarrow> raise TypeError)"

definition getattr_ns :: "(string \<times> modattr) list \<Rightarrow> string \<Rightarrow> failure + modattr" where
  "getattr_ns ns name = (case map_of ns name of None \<Rightarrow> raise AttributeError | Some t \<Rightarrow> Inr t)"

text \<open>
  The module-level table \<open>all_exceptions\<close>: the exception classes of \<open>builtins\<close>, then
  the subclasses of \<open>PyroError\<close> of \<open>Pyro5.errors\<close>, by the name they are bound to; an
  entry of the second loop replaces one of the first.
\<close>

definition is_class_under :: "host \<Rightarrow> string \<Rightarrow> string \<times> modattr \<Rightarrow> bool" where
  "is_class_under h base e =
     (case snd e of MClass c \<Rightarrow> base \<in> set (supers h c) | MOther \<Rightarrow> False)"

definition all_exceptions :: "host \<Rightarrow> string \<Rightarrow> modattr option" where
  "all_exceptions h =
     map_of (filter (is_class_under h ''Pyro5.errors.PyroError'') (errors_ns h) @
             filter (is_class_under h ''builtins.BaseException'') (builtins_ns h))"

text \<open>\<open>setattr(ex, attr, value)\<close>.\<close>

definition py_setattr :: "host \<Rightarrow> pyval \<Rightarrow> pyval \<Rightarrow> pyval \<Rightarrow> failure + pyval" where
  "py_setattr h obj attr v =
     (case attr of
        PStr name \<Rightarrow>
          (case descr_set h obj name v of
             Some r \<Rightarrow> r
           | None \<Rightarrow>
               (case obj of
                  PObj cls args (Some d) slots \<Rightarrow>
                    Inr (PObj cls args (Some (AList.update name v d)) slots)
                | PObj cls args None slots \<Rightarrow>
                    (if name \<in> fst ` set slots
                     then Inr (PObj cls args None (AList.update name v slots))
                     else raise AttributeError)
                | _ \<Rightarrow> raise AttributeError))
      | _ \<Rightarrow> raise TypeError)"

fun setattrs :: "host \<Rightarrow> pyval \<Rightarrow> pydict \<Rightarrow> failure + pyval" where
  "setattrs h ex [] = Inr ex"
| "setattrs h ex ((attr, v) # kvs) =
     (case py_setattr h ex attr v of Inl e \<Rightarrow> Inl e | Inr ex' \<Rightarrow> setattrs h ex' kvs)"

definition items :: "pyval \<Rightarrow> failure + pydict" where
  "items v = (case v of PDict d \<Rightarrow> Inr d | _ \<Rightarrow> raise AttributeError)"

definition make_exception :: "host \<Rightarrow> modattr \<Rightarrow> pydict \<Rightarrow> failure + pyval" where
  "make_exception h exceptiontype data =
     bind (getitem data ''args'') (\<lambda>a.
     bind (iterate a) (\<lambda>args.
     bind (case exceptiontype of MClass c \<Rightarrow> construct h c args | MOther \<Rightarrow> raise TypeError) (\<lambda>ex.
       (case map_of data (PStr ''attributes'') of
          None \<Rightarrow> Inr ex
        | Some attributes \<Rightarrow> bind (items attributes) (setattrs h ex)))))"

text \<open>
  The custom registry \<open>__custom_dict_to_class_registry\<close>: from a class name to the
  converter registered for it, which is called with the name and the record.
\<close>

type_synonym converter = "string \<Rightarrow> pydict \<Rightarrow> failure + pyval"
type_synonym registry = "string \<Rightarrow> converter option"

definition register_dict_to_class :: "registry \<Rightarrow> string \<Rightarrow> converter \<Rightarrow> registry" where
  "register_dict_to_class reg classname conv = reg(classname \<mapsto> conv)"

definition unregister_dict_to_class :: "registry \<Rightarrow> string \<Rightarrow> registry" where
  "unregister_dict_to_class reg classname = reg(classname := None)"

text \<open>
  The name under the key \<open>__class__\<close>, decoded when it is \<open>bytes\<close>; the default is
  \<open><unknown>\<close>.
\<close>

definition class_tag :: "host \<Rightarrow> pydict \<Rightarrow> failure + pyval" where
  "class_tag h data =
     (case map_of data (PStr ''__class__'') of
        None \<Rightarrow> Inr (PStr ''<unknown>'')
      | Some (PBytes b) \<Rightarrow>
          (case utf8_decode h b of None \<Rightarrow> raise UnicodeDecodeError | Some s \<Rightarrow> Inr (PStr s))
      | Some v \<Rightarrow> Inr v)"

text \<open>
  A tag that is not text. The registry is keyed by names, so the lookup misses (TypeError
  when the tag cannot be hashed); \<open>"__" in classname\<close> then raises TypeError on a value
  that is not a container, and on a tuple either finds \<open>"__"\<close>, where building the
  message of the SecurityError raises TypeError, or does not, where \<open>startswith\<close>
  raises AttributeError.
\<close>

definition non_text_tag :: "pyval \<Rightarrow> error" where
  "non_text_tag v =
     (if \<not> hashable v then TypeError
      else case v of
             PTuple xs \<Rightarrow> if PStr ''__'' \<in> set xs then TypeError else AttributeError
           | PExtType c b \<Rightarrow> AttributeError
           | _ \<Rightarrow> TypeError)"

definition unsupported :: "string \<Rightarrow> failure + pyval" where
  "unsupported classname =
     Inl (SerializeError (''unsupported serialized class: '' @ classname),
          [''unsupported serialized class: '' @ classname])"

definition restore :: "host \<Rightarrow> string \<Rightarrow> pydict \<Rightarrow> failure + pyval" where
  "restore h cls data = bind (getitem data ''state'') (setstate_from_dict h cls)"

definition new_serializer :: "string \<Rightarrow> pyval" where
  "new_serializer name = PObj (''Pyro5.serializers.'' @ name) [] (Some []) []"

lemma size_map_of_less:
  "map_of d k = Some v \<Longrightarrow> size v < size_list (size_prod size size) d"
  by (induction d) (auto split: if_splits)

function dict_to_class :: "host \<Rightarrow> registry \<Rightarrow> pydict \<Rightarrow> failure + pyval" where
  "dict_to_class h reg data =
     (case class_tag h data of
        Inl e \<Rightarrow> Inl e
      | Inr (PStr classname) \<Rightarrow>
          (case reg classname of
             Some converter \<Rightarrow> converter classname data
           | None \<Rightarrow>
               if contains_dunder classname then
                 raise (SecurityError
                   (''refused to deserialize types with double underscores in their name: '' @ classname))
               else if startswith classname ''Pyro5.core.'' then
                 (if classname = ''Pyro5.core.URI'' then restore h ''Pyro5.core.URI'' data
                  else if classname = ''Pyro5.core.Proxy'' then restore h ''Pyro5.core.Proxy'' data
                  else if classname = ''Pyro5.core.Daemon'' then restore h ''Pyro5.core.Daemon'' data
                  else unsupported classname)
               else if startswith classname ''Pyro5.util.'' then
                 (if classname = ''Pyro5.util.SerpentSerializer'' then Inr (new_serializer ''SerpentSerializer'')
                  else if classname = ''Pyro5.util.MarshalSerializer'' then Inr (new_serializer ''MarshalSerializer'')
                  else if classname = ''Pyro5.util.JsonSerializer'' then Inr (new_serializer ''JsonSerializer'')
                  else if classname = ''Pyro5.util.MsgpackSerializer'' then Inr (new_serializer ''MsgpackSerializer'')
                  else unsupported classname)
               else if startswith classname ''Pyro5.errors.'' then
                 (case bind (index (split_dot 2 classname) 2) (getattr_ns (errors_ns h)) of
                    Inl e \<Rightarrow> Inl e
                  | Inr errortype \<Rightarrow>
                      (case issubclass h errortype ''Pyro5.errors.PyroError'' of
                         Inl e \<Rightarrow> Inl e
                       | Inr True \<Rightarrow> make_exception h errortype data
                       | Inr False \<Rightarrow> unsupported classname))
               else if classname = ''Pyro5.core._ExceptionWrapper'' then
                 (case getitem data ''exception'' of
                    Inl e \<Rightarrow> Inl e
                  | Inr (PDict ex) \<Rightarrow>
                      (if map_of ex (PStr ''__class__'') \<noteq> None
                       then (case dict_to_class h reg ex of
                               Inl e \<Rightarrow> Inl e
                             | Inr ex' \<Rightarrow> construct h ''Pyro5.core._ExceptionWrapper'' [ex'])
                       else construct h ''Pyro5.core._ExceptionWrapper'' [PDict ex])
                  | Inr ex \<Rightarrow> construct h ''Pyro5.core._ExceptionWrapper'' [ex])
               else if truthy (case map_of data (PStr ''__exception__'') of None \<Rightarrow> PBool False | Some v \<Rightarrow> v) then
                 (case all_exceptions h classname of
                    Some exceptiontype \<Rightarrow> make_exception h exceptiontype data
                  | None \<Rightarrow>
                      (case split_dot 1 classname of
                         [namespace, short_classname] \<Rightarrow>
                           if namespace = ''builtins'' \<or> namespace = ''exceptions'' then
                             (case getattr_ns (builtins_ns h) short_classname of
                                Inl e \<Rightarrow> Inl e
                              | Inr exceptiontype \<Rightarrow>
                                  (case issubclass h exceptiontype ''builtins.BaseException'' of
                                     Inl e \<Rightarrow> Inl e
                                   | Inr True \<Rightarrow> make_exception h exceptiontype data
                                   | Inr False \<Rightarrow> unsupported classname))
                           else if namespace = ''sqlite3'' \<and> endswith short_classname ''Error'' then
                             (case sqlite3_ns h of
                                None \<Rightarrow> raise ImportError
                              | Some ns \<Rightarrow>
                                  (case getattr_ns ns short_classname of
                                     Inl e \<Rightarrow> Inl e
                                   | Inr exceptiontype \<Rightarrow>
                                       (case issubclass h exceptiontype ''builtins.BaseException'' of
                                          Inl e \<Rightarrow> Inl e
                                        | Inr True \<Rightarrow> make_exception h exceptiontype data
                                        | Inr False \<Rightarrow> unsupported classname)))
                           else unsupported classname
                       | _ \<Rightarrow> raise (ValueError ''not enough values to unpack (expected 2, got 1)'')))
               else unsupported classname)
      | Inr v \<Rightarrow> raise (non_text_tag v))"
  by pat_completeness auto
termination
proof (relation "measure (\<lambda>(h, reg, data). size_list (size_prod size size) data)")
  show "wf (measure (\<lambda>(h, reg, data). size_list (size_prod size size) data))" by simp
next
  fix h :: host and reg :: registry and data ex :: pydict and v :: pyval
  assume "getitem data ''exception'' = Inr v" and "v = PDict ex"
  then have "map_of data (PStr ''exception'') = Some (PDict ex)"
    by (auto simp: getitem_def raise_def split: option.splits)
  from size_map_of_less [OF this]
  show "((h, reg, ex), (h, reg, data)) \<in> measure (\<lambda>(h, reg, data). size_list (size_prod size size) data)"
    by simp
qed

section \<open>Compression: \<open>SerializerBase.__compressdata\<close>\<close>

text \<open>
  \<open>zlib.compress\<close> is a parameter. \<open>dumps\<close> is the method of the subclass
  (\<open>SerializerBase.dumps\<close> itself raises NotImplementedError).
\<close>

definition compressdata :: "(bytes \<Rightarrow> bytes) \<Rightarrow> bytes \<Rightarrow> bool \<Rightarrow> bytes \<times> bool" where
  "compressdata zlib_compress data compress =
     (if \<not> compress \<or> length data < 200 then (data, False)
      else let compressed = zlib_compress data
           in if length compressed < length data then (compressed, True) else (data, False))"

definition serializeData ::
  "(pyval \<Rightarrow> failure + bytes) \<Rightarrow> (bytes \<Rightarrow> bytes) \<Rightarrow> pyval \<Rightarrow> bool \<Rightarrow> failure + bytes \<times> bool" where
  "serializeData dumps zlib_compress data compress =
     bind (dumps data) (\<lambda>data. Inr (compressdata zlib_compress data compress))"

definition SerializerBase_dumps :: "pyval \<Rightarrow> failure + bytes" where
  "SerializerBase_dumps data = raise NotImplementedError"

section \<open>Conversion to a dict: \<open>SerializerBase.class_to_dict\<close>\<close>

definition type_name :: "pyval \<Rightarrow> string" where
  "type_name v =
     (case v of
        PNone \<Rightarrow> ''builtins.NoneType''
      | PBool b \<Rightarrow> ''builtins.bool''
      | PInt i \<Rightarrow> ''builtins.int''
      | PFloat x \<Rightarrow> ''builtins.float''
      | PComplex r i \<Rightarrow> ''builtins.complex''
      | PStr s \<Rightarrow> ''builtins.str''
      | PBytes b \<Rightarrow> ''builtins.bytes''
      | PByteArray b \<Rightarrow> ''builtins.bytearray''
      | PList xs \<Rightarrow> ''builtins.list''
      | PTuple xs \<Rightarrow> ''builtins.tuple''
      | PSet xs \<Rightarrow> ''builtins.set''
      | PDict d \<Rightarrow> ''builtins.dict''
      | PUUID u \<Rightarrow> ''uuid.UUID''
      | PDecimal s \<Rightarrow> ''decimal.Decimal''
      | PDatetime f tz \<Rightarrow> ''datetime.datetime''
      | PDate n \<Rightarrow> ''datetime.date''
      | PExtType c b \<Rightarrow> ''msgpack.ext.ExtType''
      | PObj cls args d slots \<Rightarrow> cls)"

definition isinstance :: "host \<Rightarrow> pyval \<Rightarrow> string \<Rightarrow> bool" where
  "isinstance h obj clazz = (clazz \<in> set (supers h (type_name obj)))"

text \<open>\<open>str(obj.__class__)\<close>.\<close>

definition class_repr :: "string \<Rightarrow> string" where
  "class_repr c =
     ''<class '' @ [CHR 0x27] @ (if startswith c ''builtins.'' then drop 9 c else c) @ [CHR 0x27] @ ''>''"

fun mapM :: "('a \<Rightarrow> failure + 'b) \<Rightarrow> 'a list \<Rightarrow> failure + 'b list" where
  "mapM f [] = Inr []"
| "mapM f (x # xs) =
     (case f x of
        Inl e \<Rightarrow> Inl e
      | Inr y \<Rightarrow> (case mapM f xs of Inl e \<Rightarrow> Inl e | Inr ys \<Rightarrow> Inr (y # ys)))"

lemma mapM_cong [fundef_cong]:
  "xs = ys \<Longrightarrow> (\<And>x. x \<in> set ys \<Longrightarrow> f x = g x) \<Longrightarrow> mapM f xs = mapM g ys"
  by (induction ys arbitrary: xs) (auto split: sum.splits)

text \<open>
  The custom registry \<open>__custom_class_to_dict_registry\<close>, in the order of registration:
  a class and the converter registered for it.
\<close>

type_synonym to_dict_registry = "(string \<times> (pyval \<Rightarrow> failure + pyval)) list"

definition register_class_to_dict ::
  "to_dict_registry \<Rightarrow> string \<Rightarrow> (pyval \<Rightarrow> failure + pyval) \<Rightarrow> to_dict_registry" where
  "register_class_to_dict reg clazz converter = AList.update clazz converter reg"

definition unregister_class_to_dict :: "to_dict_registry \<Rightarrow> string \<Rightarrow> to_dict_registry" where
  "unregister_class_to_dict reg clazz = AList.delete clazz reg"

text \<open>\<open>if hasattr(obj, "_pyroDaemon"): obj._pyroDaemon = None\<close>.\<close>

definition clear_pyroDaemon :: "pyval \<Rightarrow> pyval" where
  "clear_pyroDaemon obj =
     (case obj of
        PObj cls args (Some d) slots \<Rightarrow>
          if ''_pyroDaemon'' \<in> fst ` set d
          then PObj cls args (Some (AList.update ''_pyroDaemon'' PNone d)) slots
          else if ''_pyroDaemon'' \<in> fst ` set slots
          then PObj cls args (Some d) (AList.update ''_pyroDaemon'' PNone slots)
          else obj
      | PObj cls args None slots \<Rightarrow>
          if ''_pyroDaemon'' \<in> fst ` set slots
          then PObj cls args None (AList.update ''_pyroDaemon'' PNone slots)
          else obj
      | _ \<Rightarrow> obj)"

text \<open>\<open>vars(obj)\<close>: TypeError when the object has no \<open>__dict__\<close>.\<close>

definition py_vars :: "pyval \<Rightarrow> failure + pydict" where
  "py_vars obj =
     (case obj of
        PObj cls args (Some d) slots \<Rightarrow> Inr (map (\<lambda>(k, v). (PStr k, v)) d)
      | _ \<Rightarrow> raise TypeError)"

definition obj_args :: "pyval \<Rightarrow> pyval list" where
  "obj_args obj = (case obj of PObj cls args d slots \<Rightarrow> args | _ \<Rightarrow> [])"

definition get_slot :: "pyval \<Rightarrow> string \<Rightarrow> failure + pyval \<times> pyval" where
  "get_slot obj slot =
     (case obj of
        PObj cls args d slots \<Rightarrow>
          (case map_of slots slot of None \<Rightarrow> raise AttributeError | Some v \<Rightarrow> Inr (PStr slot, v))
      | _ \<Rightarrow> raise AttributeError)"

text \<open>
  The call \<open>obj.__getstate__()\<close> inside \<open>try ... except AttributeError: pass\<close>: the
  dict it returns, if it returns one.
\<close>

definition state_of :: "host \<Rightarrow> pyval \<Rightarrow> failure + pydict option" where
  "state_of h obj =
     (case getstate h obj of
        None \<Rightarrow> Inr None
      | Some (Inl (e, l)) \<Rightarrow> if e = AttributeError then Inr None else Inl (e, l)
      | Some (Inr (PDict d)) \<Rightarrow> Inr (Some d)
      | Some (Inr v) \<Rightarrow> Inr None)"

definition class_to_dict ::
  "host \<Rightarrow> string \<Rightarrow> to_dict_registry \<Rightarrow> pyval \<Rightarrow> failure + pyval" where
  "class_to_dict h cls_name reg obj0 =
     (case find (\<lambda>(clazz, converter). isinstance h obj0 clazz) reg of
        Some (clazz, converter) \<Rightarrow> converter obj0
      | None \<Rightarrow>
          if type_name obj0 \<in> {''builtins.set'', ''builtins.dict'', ''builtins.tuple'', ''builtins.list''} then
            raise (ValueError (''can't serialize type '' @ class_repr (type_name obj0) @ '' into a dict''))
          else
            let obj = clear_pyroDaemon obj0 in
            if isinstance h obj ''builtins.BaseException'' then
              bind (py_vars obj) (\<lambda>attributes.
                Inr (PDict [(PStr ''__class__'', PStr (type_name obj)),
                            (PStr ''__exception__'', PBool True),
                            (PStr ''args'', PTuple (obj_args obj)),
                            (PStr ''attributes'', PDict attributes)]))
            else
              (case state_of h obj of
                 Inl e \<Rightarrow> Inl e
               | Inr (Some value) \<Rightarrow> Inr (PDict value)
               | Inr None \<Rightarrow>
                   (case py_vars obj of
                      Inr value \<Rightarrow>
                        Inr (PDict (AList.update (PStr ''__class__'') (PStr (type_name obj)) value))
                    | Inl e \<Rightarrow>
                        (case slots_of h (type_name obj) of
                           Some slots \<Rightarrow>
                             bind (mapM (get_slot obj) slots) (\<lambda>value.
                               Inr (PDict (AList.update (PStr ''__class__'') (PStr (type_name obj)) value)))
                         | None \<Rightarrow>
                             raise (SerializeError
                               (''don't know how to serialize class '' @ class_repr (type_name obj) @
                                '' using serializer '' @ cls_name @
                                ''. Give it vars() or an appropriate __getstate__''))))))"

section \<open>Scalars: text forms and \<open>struct\<close> layouts\<close>

text \<open>\<open>str(u)\<close> of a UUID: 32 lower-case hexadecimal digits in groups of 8-4-4-4-12.\<close>

definition hex_digit :: "nat \<Rightarrow> char" where
  "hex_digit n = (''0123456789abcdef'') ! (n mod 16)"

definition hex32 :: "128 word \<Rightarrow> string" where
  "hex32 u = map (\<lambda>i. hex_digit (unat (drop_bit (4 * (31 - i)) u AND 0xF))) [0..<32]"

definition uuid_str :: "128 word \<Rightarrow> string" where
  "uuid_str u =
     (let x = hex32 u
      in take 8 x @ ''-'' @ take 4 (drop 8 x) @ ''-'' @ take 4 (drop 12 x) @ ''-'' @
         take 4 (drop 16 x) @ ''-'' @ drop 20 x)"

text \<open>\<open>str(i)\<close> of an int.\<close>

definition digit_char :: "int \<Rightarrow> char" where
  "digit_char d = (''0123456789'') ! nat (d mod 10)"

function str_digits :: "int \<Rightarrow> string" where
  "str_digits n = (if n < 10 then [digit_char n] else str_digits (n div 10) @ [digit_char n])"
  by pat_completeness auto
termination
  by (relation "measure nat") auto

definition str_int :: "int \<Rightarrow> string" where
  "str_int i = (if i < 0 then CHR ''-'' # str_digits (- i) else str_digits i)"

text \<open>
  \<open>str(i)\<close> and \<open>repr(i)\<close> as the interpreter runs them: an int with more decimal
  digits than the limit is refused.
\<close>

definition int_str :: "host \<Rightarrow> int \<Rightarrow> failure + string" where
  "int_str h i =
     (if 0 < int_max_str_digits h \<and> int_max_str_digits h < length (str_digits (abs i))
      then raise (ValueError ''Exceeds the limit for integer string conversion'')
      else Inr (str_int i))"

text \<open>\<open>s.encode("ascii")\<close>.\<close>

definition ascii_encode :: "string \<Rightarrow> failure + bytes" where
  "ascii_encode s =
     (if \<forall>c \<in> set s. of_char c < (128 :: nat) then Inr (map of_char s) else raise UnicodeEncodeError)"

text \<open>
  \<open>struct.pack\<close> and \<open>struct.unpack\<close> in native mode, on a little-endian machine
  whose C \<open>long\<close> has 8 bytes: format \<open>d\<close> is the 8 bytes of the double, \<open>dd\<close> two
  of them, \<open>l\<close> the 8 bytes of a signed integer. \<open>unpack\<close> needs a buffer of exactly
  the size of the format.
\<close>

definition pack_d :: "64 word \<Rightarrow> bytes" where
  "pack_d w = map (\<lambda>i. ucast (drop_bit (8 * i) w)) [0..<8]"

definition le_word :: "bytes \<Rightarrow> 64 word" where
  "le_word bs = foldr (\<lambda>b acc. ucast b OR push_bit 8 acc) bs 0"

definition unpack_d :: "bytes \<Rightarrow> failure + 64 word" where
  "unpack_d data = (if length data = 8 then Inr (le_word data) else raise StructError)"

definition pack_dd :: "64 word \<Rightarrow> 64 word \<Rightarrow> bytes" where
  "pack_dd x y = pack_d x @ pack_d y"

definition unpack_dd :: "bytes \<Rightarrow> failure + 64 word \<times> 64 word" where
  "unpack_dd data =
     (if length data = 16 then Inr (le_word (take 8 data), le_word (drop 8 data))
      else raise StructError)"

definition pack_l :: "int \<Rightarrow> failure + bytes" where
  "pack_l i =
     (if - (2 ^ 63) \<le> i \<and> i < 2 ^ 63 then Inr (pack_d (word_of_int i)) else raise StructError)"

definition unpack_l :: "bytes \<Rightarrow> failure + int" where
  "unpack_l data = (if length data = 8 then Inr (sint (le_word data)) else raise StructError)"

text \<open>
  \<open>int(data)\<close> of a bytes object: surrounding whitespace is dropped, a sign may come
  first, and the digits may be grouped by single underscores; a literal with more
  digits than the interpreter's limit is refused.
\<close>

definition is_space :: "byte \<Rightarrow> bool" where
  "is_space b = (b \<in> {0x20, 0x09, 0x0A, 0x0B, 0x0C, 0x0D})"

definition is_digit :: "byte \<Rightarrow> bool" where
  "is_digit b = (0x30 \<le> b \<and> b \<le> 0x39)"

definition strip :: "bytes \<Rightarrow> bytes" where
  "strip b = rev (dropWhile is_space (rev (dropWhile is_space b)))"

fun digits_value :: "int \<Rightarrow> bytes \<Rightarrow> int option" where
  "digits_value acc [] = Some acc"
| "digits_value acc [b] = (if is_digit b then Some (10 * acc + (uint b - 48)) else None)"
| "digits_value acc (b # c # r) =
     (if is_digit b then digits_value (10 * acc + (uint b - 48)) (c # r)
      else if b = 0x5F \<and> is_digit c then digits_value acc (c # r)
      else None)"

definition int_of_bytes :: "host \<Rightarrow> bytes \<Rightarrow> failure + int" where
  "int_of_bytes h data =
     (let s = strip data;
          neg = (s \<noteq> [] \<and> hd s = 0x2D);
          body = (if s \<noteq> [] \<and> (hd s = 0x2D \<or> hd s = 0x2B) then tl s else s)
      in if body = [] \<or> \<not> is_digit (hd body) then raise (ValueError ''invalid literal for int() with base 10'')
         else if 0 < int_max_str_digits h \<and> int_max_str_digits h < length (filter is_digit body)
         then raise (ValueError ''Exceeds the limit for integer string conversion'')
         else case digits_value 0 body of
                None \<Rightarrow> raise (ValueError ''invalid literal for int() with base 10'')
              | Some n \<Rightarrow> Inr (if neg then - n else n))"

text \<open>
  \<open>datetime.date.fromordinal(n)\<close>: the argument is a C \<open>int\<close>, and the ordinals of
  the years 1 to 9999 are 1 to 3652059.
\<close>

definition fromordinal :: "int \<Rightarrow> failure + pyval" where
  "fromordinal n =
     (if n < - (2 ^ 31) \<or> 2 ^ 31 \<le> n then raise OverflowError
      else if n < 1 \<or> 3652059 < n then raise (ValueError ''ordinal out of range'')
      else Inr (PDate n))"

section \<open>The hooks of the JSON and msgpack adapters\<close>

text \<open>
  \<open>__type_replacements\<close>: from the exact type of an object to the replacement function
  registered for it.
\<close>

type_synonym replacements = "string \<Rightarrow> (pyval \<Rightarrow> failure + pyval) option"

definition register_type_replacement ::
  "replacements \<Rightarrow> string \<Rightarrow> (pyval \<Rightarrow> failure + pyval) \<Rightarrow> replacements" where
  "register_type_replacement repl object_type replacement_function =
     repl(object_type \<mapsto> replacement_function)"

definition replace :: "replacements \<Rightarrow> pyval \<Rightarrow> failure + pyval" where
  "replace repl obj = (case repl (type_name obj) of None \<Rightarrow> Inr obj | Some replacer \<Rightarrow> replacer obj)"

definition JsonSerializer_default ::
  "host \<Rightarrow> replacements \<Rightarrow> to_dict_registry \<Rightarrow> pyval \<Rightarrow> failure + pyval" where
  "JsonSerializer_default h repl reg obj0 =
     bind (replace repl obj0) (\<lambda>obj.
       case obj of
         PSet xs \<Rightarrow> Inr (PTuple xs)
       | PUUID u \<Rightarrow> Inr (PStr (uuid_str u))
       | PDatetime f tz \<Rightarrow> Inr (PStr (isoformat h obj))
       | PDate n \<Rightarrow> Inr (PStr (isoformat h obj))
       | PDecimal s \<Rightarrow> Inr (PStr s)
       | _ \<Rightarrow> class_to_dict h ''JsonSerializer'' reg obj)"

text \<open>\<open>isinstance(obj, numbers.Number)\<close> and \<open>str(obj)\<close>.\<close>

definition is_number :: "host \<Rightarrow> pyval \<Rightarrow> bool" where
  "is_number h obj =
     (case obj of
        PInt i \<Rightarrow> True
      | PBool b \<Rightarrow> True
      | PFloat x \<Rightarrow> True
      | PComplex r i \<Rightarrow> True
      | PDecimal s \<Rightarrow> True
      | PObj cls args d slots \<Rightarrow> ''numbers.Number'' \<in> set (supers h cls)
      | _ \<Rightarrow> False)"

definition py_str :: "host \<Rightarrow> pyval \<Rightarrow> failure + string" where
  "py_str h obj =
     (case obj of
        PInt i \<Rightarrow> int_str h i
      | PBool b \<Rightarrow> Inr (if b then ''True'' else ''False'')
      | PStr s \<Rightarrow> Inr s
      | PDecimal s \<Rightarrow> Inr s
      | PUUID u \<Rightarrow> Inr (uuid_str u)
      | _ \<Rightarrow> Inr (obj_str h obj))"

definition MsgpackSerializer_default ::
  "host \<Rightarrow> replacements \<Rightarrow> to_dict_registry \<Rightarrow> pyval \<Rightarrow> failure + pyval" where
  "MsgpackSerializer_default h repl reg obj0 =
     bind (replace repl obj0) (\<lambda>obj.
       case obj of
         PSet xs \<Rightarrow> Inr (PTuple xs)
       | PUUID u \<Rightarrow> Inr (PStr (uuid_str u))
       | PByteArray b \<Rightarrow> Inr (PBytes b)
       | PComplex r i \<Rightarrow> Inr (PExtType 0x30 (pack_dd r i))
       | PDatetime f tz \<Rightarrow>
           if (case tz of None \<Rightarrow> False | Some z \<Rightarrow> tz_true z)
           then raise (SerializeError ''msgpack cannot serialize datetime with timezone info'')
           else bind (timestamp h f tz) (\<lambda>t. Inr (PExtType 0x32 (pack_d t)))
       | PDate n \<Rightarrow> bind (pack_l n) (\<lambda>b. Inr (PExtType 0x33 b))
       | PDecimal s \<Rightarrow> Inr (PStr s)
       | _ \<Rightarrow>
           if is_number h obj
           then bind (py_str h obj) (\<lambda>s. bind (ascii_encode s) (\<lambda>b. Inr (PExtType 0x31 b)))
           else class_to_dict h ''MsgpackSerializer'' reg obj)"

definition ext_hook :: "host \<Rightarrow> int \<Rightarrow> bytes \<Rightarrow> failure + pyval" where
  "ext_hook h code data =
     (if code = 0x30 then bind (unpack_dd data) (\<lambda>(real, imag). Inr (PComplex real imag))
      else if code = 0x31 then bind (int_of_bytes h data) (\<lambda>i. Inr (PInt i))
      else if code = 0x32 then
        bind (unpack_d data) (\<lambda>t. bind (fromtimestamp h t) (\<lambda>f. Inr (PDatetime f None)))
      else if code = 0x33 then bind (unpack_l data) fromordinal
      else raise (SerializeError (''invalid ext code for msgpack: '' @ str_int code)))"

text \<open>\<open>MarshalSerializer.class_to_dict\<close>.\<close>

definition MarshalSerializer_class_to_dict ::
  "host \<Rightarrow> to_dict_registry \<Rightarrow> pyval \<Rightarrow> failure + pyval" where
  "MarshalSerializer_class_to_dict h reg obj =
     (case obj of
        PUUID u \<Rightarrow> Inr (PStr (uuid_str u))
      | _ \<Rightarrow> class_to_dict h ''MarshalSerializer'' reg obj)"


section \<open>Reconstruction of a literal: \<open>recreate_classes\<close>\<close>

text \<open>
  A set built from reconstructed elements: its elements must be hashable, and equal
  elements are kept once.
\<close>

definition make_set :: "pyval list \<Rightarrow> failure + pyval" where
  "make_set ys = (if \<forall>y \<in> set ys. hashable y then Inr (PSet (remdups ys)) else raise TypeError)"

text \<open>\<open>dict_to_class\<close> is the method of the adapter (\<open>self.dict_to_class\<close>).\<close>

fun recreate_classes :: "(pydict \<Rightarrow> failure + pyval) \<Rightarrow> pyval \<Rightarrow> failure + pyval" where
  "recreate_classes d2c (PSet xs) = bind (mapM (recreate_classes d2c) xs) make_set"
| "recreate_classes d2c (PList xs) = bind (mapM (recreate_classes d2c) xs) (\<lambda>ys. Inr (PList ys))"
| "recreate_classes d2c (PTuple xs) = bind (mapM (recreate_classes d2c) xs) (\<lambda>ys. Inr (PTuple ys))"
| "recreate_classes d2c (PDict d) =
     (if map_of d (PStr ''__class__'') \<noteq> None then d2c d
      else bind (mapM (\<lambda>kv. bind (recreate_classes d2c (snd kv)) (\<lambda>v. Inr (fst kv, v))) d)
             (\<lambda>result. Inr (PDict result)))"
| "recreate_classes d2c literal = Inr literal"

section \<open>The wire libraries\<close>

text \<open>
  The wire libraries (\<open>marshal\<close>, \<open>json\<close>, \<open>msgpack\<close>, \<open>serpent\<close>) are not part of
  the repository. The adapters never look into the bytes a library writes, so a message
  is identified with the document it encodes, and a library reads back the document it
  wrote. What is modelled of a library is which values its encoder takes, what it turns
  them into, and when encoder and decoder call the hooks an adapter passes to them.
\<close>

datatype jval =
    JNull
  | JBool bool
  | JInt int
  | JFloat "64 word"
  | JStr string
  | JArray "jval list"
  | JObject "(string \<times> jval) list"

datatype message =
    Marshalled pyval
  | JsonText jval
  | Msgpacked pyval
  | SerpentText pyval

text \<open>A dict built by assigning the items in turn: a later item replaces an equal key.\<close>

definition dict_of :: "pydict \<Rightarrow> pydict" where
  "dict_of kvs = fold (\<lambda>kv d. AList.update (fst kv) (snd kv) d) kvs []"

subsection \<open>marshal\<close>

text \<open>
  \<open>marshal.dumps\<close> writes the literals of the interpreter and raises ValueError
  (\<open>unmarshallable object\<close>) on everything else, also inside a container; a
  \<open>bytearray\<close> is written as \<open>bytes\<close>. \<open>marshal.loads\<close> returns the value written.
\<close>

fun marshallable :: "pyval \<Rightarrow> bool" where
  "marshallable (PList xs) = (\<forall>x \<in> set xs. marshallable x)"
| "marshallable (PTuple xs) = (\<forall>x \<in> set xs. marshallable x)"
| "marshallable (PSet xs) = (\<forall>x \<in> set xs. marshallable x)"
| "marshallable (PDict d) = (\<forall>kv \<in> set d. marshallable (fst kv) \<and> marshallable (snd kv))"
| "marshallable (PUUID u) = False"
| "marshallable (PDecimal s) = False"
| "marshallable (PDatetime f tz) = False"
| "marshallable (PDate n) = False"
| "marshallable (PExtType c b) = False"
| "marshallable (PObj cls args d slots) = False"
| "marshallable v = True"

fun marshal_written :: "pyval \<Rightarrow> pyval" where
  "marshal_written (PByteArray b) = PBytes b"
| "marshal_written (PList xs) = PList (map marshal_written xs)"
| "marshal_written (PTuple xs) = PTuple (map marshal_written xs)"
| "marshal_written (PSet xs) = PSet (map marshal_written xs)"
| "marshal_written (PDict d) = PDict (map (\<lambda>kv. (marshal_written (fst kv), marshal_written (snd kv))) d)"
| "marshal_written v = v"

definition marshal_dumps :: "pyval \<Rightarrow> failure + message" where
  "marshal_dumps v =
     (if marshallable v then Inr (Marshalled (marshal_written v))
      else raise (ValueError ''unmarshallable object''))"

definition marshal_loads :: "message \<Rightarrow> failure + pyval" where
  "marshal_loads m = (case m of Marshalled v \<Rightarrow> Inr v | _ \<Rightarrow> raise (ValueError ''bad marshal data''))"

subsection \<open>json\<close>

text \<open>
  \<open>json.dumps(obj, default=hook)\<close>. The encoder writes \<open>None\<close>, booleans, ints,
  floats and text itself, a list or a tuple (also a named tuple) as an array, and a dict
  as an object whose keys are text: a key that is an int, a float, a boolean or \<open>None\<close>
  is written as its text, any other key raises TypeError. For every other value it calls
  the hook and encodes what the hook returns, in turn; the chain of such calls is cut by
  the recursion limit of the interpreter. A NaN is written as the token \<open>NaN\<close>, which
  reads back as the one NaN of \<open>float("nan")\<close>.
\<close>

definition is_nan :: "64 word \<Rightarrow> bool" where
  "is_nan x = (drop_bit 52 x AND 0x7FF = 0x7FF \<and> x AND 0xFFFFFFFFFFFFF \<noteq> 0)"

definition nan :: "64 word" where
  "nan = 0x7FF8000000000000"

definition json_float :: "64 word \<Rightarrow> 64 word" where
  "json_float x = (if is_nan x then nan else x)"

definition json_floatstr :: "host \<Rightarrow> 64 word \<Rightarrow> string" where
  "json_floatstr h x =
     (if is_nan x then ''NaN''
      else if x = 0x7FF0000000000000 then ''Infinity''
      else if x = 0xFFF0000000000000 then ''-Infinity''
      else obj_str h (PFloat x))"

definition json_key :: "host \<Rightarrow> pyval \<Rightarrow> failure + string" where
  "json_key h k =
     (case k of
        PStr s \<Rightarrow> Inr s
      | PFloat x \<Rightarrow> Inr (json_floatstr h x)
      | PBool b \<Rightarrow> Inr (if b then ''true'' else ''false'')
      | PNone \<Rightarrow> Inr ''null''
      | PInt i \<Rightarrow> int_str h i
      | _ \<Rightarrow> raise TypeError)"

function json_encode :: "host \<Rightarrow> nat \<Rightarrow> (pyval \<Rightarrow> failure + pyval) \<Rightarrow> pyval \<Rightarrow> failure + jval" where
  "json_encode h n dflt v =
     (case v of
        PNone \<Rightarrow> Inr JNull
      | PBool b \<Rightarrow> Inr (JBool b)
      | PInt i \<Rightarrow> bind (int_str h i) (\<lambda>s. Inr (JInt i))
      | PFloat x \<Rightarrow> Inr (JFloat (json_float x))
      | PStr s \<Rightarrow> Inr (JStr s)
      | PList xs \<Rightarrow> bind (mapM (json_encode h n dflt) xs) (\<lambda>js. Inr (JArray js))
      | PTuple xs \<Rightarrow> bind (mapM (json_encode h n dflt) xs) (\<lambda>js. Inr (JArray js))
      | PExtType c b \<Rightarrow>
          bind (int_str h c) (\<lambda>s.
            if n = 0 then raise RecursionError
            else bind (bind (dflt (PBytes b)) (json_encode h (n - 1) dflt)) (\<lambda>j. Inr (JArray [JInt c, j])))
      | PDict d \<Rightarrow>
          bind (mapM (\<lambda>kv. bind (json_key h (fst kv)) (\<lambda>k.
                            bind (json_encode h n dflt (snd kv)) (\<lambda>j. Inr (k, j)))) d)
            (\<lambda>kvs. Inr (JObject kvs))
      | _ \<Rightarrow>
          if n = 0 then raise RecursionError
          else bind (dflt v) (json_encode h (n - 1) dflt))"
  by pat_completeness auto
termination
  by lexicographic_order

definition json_dumps :: "host \<Rightarrow> (pyval \<Rightarrow> failure + pyval) \<Rightarrow> pyval \<Rightarrow> failure + jval" where
  "json_dumps h dflt obj = json_encode h (recursion_limit h) dflt obj"

text \<open>
  \<open>json.loads\<close>: an array is read as a list, an object as a dict with text keys, in
  which the last of equal keys stays.
\<close>

fun json_loads :: "jval \<Rightarrow> pyval" where
  "json_loads JNull = PNone"
| "json_loads (JBool b) = PBool b"
| "json_loads (JInt i) = PInt i"
| "json_loads (JFloat x) = PFloat x"
| "json_loads (JStr s) = PStr s"
| "json_loads (JArray js) = PList (map json_loads js)"
| "json_loads (JObject kvs) = PDict (dict_of (map (\<lambda>kv. (PStr (fst kv), json_loads (snd kv))) kvs))"

subsection \<open>msgpack\<close>

text \<open>
  \<open>msgpack.packb(obj, use_bin_type=True, default=hook)\<close>, as the compiled packer
  runs: it writes \<open>None\<close>, booleans, ints of 64 bits, \<open>bytes\<close> and \<open>bytearray\<close> (as
  binary), text, floats and extension values itself, a list or a tuple as an array and a
  dict as a map, each level of nesting taking one from the limit of 511. On any other
  value, and on an int out of range, it calls the hook, once for a value, and packs
  what the hook returns. The packed document holds arrays, maps and binaries only: a
  tuple is an array, a \<open>bytearray\<close> a binary.
\<close>

definition DEFAULT_RECURSE_LIMIT :: nat where
  "DEFAULT_RECURSE_LIMIT = 511"

function msgpack_pack :: "nat \<Rightarrow> (pyval \<Rightarrow> failure + pyval) \<Rightarrow> bool \<Rightarrow> pyval \<Rightarrow> failure + pyval" where
  "msgpack_pack 0 dflt used v = raise (ValueError ''recursion limit exceeded'')"
| "msgpack_pack (Suc n) dflt used v =
     (case v of
        PNone \<Rightarrow> Inr v
      | PBool b \<Rightarrow> Inr v
      | PInt i \<Rightarrow>
          if - (2 ^ 63) \<le> i \<and> i < 2 ^ 64 then Inr v
          else if used then raise OverflowError
          else bind (dflt v) (msgpack_pack (Suc n) dflt True)
      | PBytes b \<Rightarrow> Inr v
      | PByteArray b \<Rightarrow> Inr (PBytes b)
      | PStr s \<Rightarrow> Inr v
      | PFloat x \<Rightarrow> Inr v
      | PExtType c b \<Rightarrow> Inr v
      | PList xs \<Rightarrow> bind (mapM (msgpack_pack n dflt False) xs) (\<lambda>ts. Inr (PList ts))
      | PTuple xs \<Rightarrow> bind (mapM (msgpack_pack n dflt False) xs) (\<lambda>ts. Inr (PList ts))
      | PDict d \<Rightarrow>
          bind (mapM (\<lambda>kv. bind (msgpack_pack n dflt False (fst kv)) (\<lambda>k.
                            bind (msgpack_pack n dflt False (snd kv)) (\<lambda>t. Inr (k, t)))) d)
            (\<lambda>ts. Inr (PDict ts))
      | _ \<Rightarrow>
          if used then raise TypeError
          else bind (dflt v) (msgpack_pack (Suc n) dflt True))"
  by pat_completeness auto
termination
  by (relation "measure (\<lambda>(n, dflt, used, v). 2 * n + (if used then 0 else 1))") auto

definition msgpack_packb :: "(pyval \<Rightarrow> failure + pyval) \<Rightarrow> pyval \<Rightarrow> failure + message" where
  "msgpack_packb dflt obj =
     bind (msgpack_pack (Suc DEFAULT_RECURSE_LIMIT) dflt False obj) (\<lambda>t. Inr (Msgpacked t))"

text \<open>
  \<open>msgpack.unpackb(data, encoding="utf-8", object_hook=..., ext_hook=...)\<close>: an array
  is read as a list, a map as a dict, which is then given to \<open>object_hook\<close>, and an
  extension value is given to \<open>ext_hook\<close>; the result of a hook stands in its place. A
  key that cannot be hashed raises TypeError.
\<close>

fun msgpack_unpack ::
  "(pydict \<Rightarrow> failure + pyval) \<Rightarrow> (int \<Rightarrow> bytes \<Rightarrow> failure + pyval) \<Rightarrow> pyval \<Rightarrow> failure + pyval" where
  "msgpack_unpack oh eh (PList ts) = bind (mapM (msgpack_unpack oh eh) ts) (\<lambda>xs. Inr (PList xs))"
| "msgpack_unpack oh eh (PDict ts) =
     bind (mapM (\<lambda>kv. bind (msgpack_unpack oh eh (fst kv)) (\<lambda>k.
                       bind (msgpack_unpack oh eh (snd kv)) (\<lambda>v.
                         if hashable k then Inr (k, v) else raise TypeError))) ts)
       (\<lambda>kvs. oh (dict_of kvs))"
| "msgpack_unpack oh eh (PExtType c b) = eh c b"
| "msgpack_unpack oh eh t = Inr t"

definition msgpack_unpackb ::
  "(pydict \<Rightarrow> failure + pyval) \<Rightarrow> (int \<Rightarrow> bytes \<Rightarrow> failure + pyval) \<Rightarrow> message \<Rightarrow> failure + pyval" where
  "msgpack_unpackb oh eh m =
     (case m of Msgpacked t \<Rightarrow> msgpack_unpack oh eh t | _ \<Rightarrow> raise (ValueError ''Unpack failed''))"

subsection \<open>serpent\<close>

text \<open>
  \<open>serpent.dumps(obj, module_in_classname=True)\<close> writes a Python literal, with no
  class registered at the library: \<open>None\<close>, booleans, ints, text, finite and infinite
  floats, complex numbers, tuples, lists, dicts and sets that are not empty are written
  as they are. There is no literal for a NaN, for \<open>bytes\<close> and for the empty set: a
  NaN is written as the dict \<open>{'__class__': 'float', 'value': 'nan'}\<close>, \<open>bytes\<close> and
  \<open>bytearray\<close> as a dict of their base-64 text, the empty set as the empty tuple. A
  UUID and a Decimal are written as their text, a datetime and a date in ISO format; what
  the library writes for an instance is left to the host. \<open>serpent.loads\<close> evaluates
  the literal, where the keys of a dict and the elements of a set must be hashable.
\<close>

fun serpent_written :: "host \<Rightarrow> pyval \<Rightarrow> failure + pyval" where
  "serpent_written h (PInt i) = bind (int_str h i) (\<lambda>s. Inr (PInt i))"
| "serpent_written h (PFloat x) =
     Inr (if is_nan x then PDict [(PStr ''__class__'', PStr ''float''), (PStr ''value'', PStr ''nan'')]
          else PFloat x)"
| "serpent_written h (PBytes b) =
     Inr (PDict [(PStr ''data'', PStr (b64encode h b)), (PStr ''encoding'', PStr ''base64'')])"
| "serpent_written h (PByteArray b) =
     Inr (PDict [(PStr ''data'', PStr (b64encode h b)), (PStr ''encoding'', PStr ''base64'')])"
| "serpent_written h (PList xs) = bind (mapM (serpent_written h) xs) (\<lambda>ts. Inr (PList ts))"
| "serpent_written h (PTuple xs) = bind (mapM (serpent_written h) xs) (\<lambda>ts. Inr (PTuple ts))"
| "serpent_written h (PSet xs) =
     bind (mapM (serpent_written h) xs) (\<lambda>ts. Inr (if ts = [] then PTuple [] else PSet ts))"
| "serpent_written h (PDict d) =
     bind (mapM (\<lambda>kv. bind (serpent_written h (fst kv)) (\<lambda>k.
                       bind (serpent_written h (snd kv)) (\<lambda>t. Inr (k, t)))) d)
       (\<lambda>ts. Inr (PDict ts))"
| "serpent_written h (PUUID u) = Inr (PStr (uuid_str u))"
| "serpent_written h (PDecimal s) = Inr (PStr s)"
| "serpent_written h (PDatetime f tz) = Inr (PStr (isoformat h (PDatetime f tz)))"
| "serpent_written h (PDate n) = Inr (PStr (isoformat h (PDate n)))"
| "serpent_written h (PExtType c b) = serpent_instance h (PExtType c b)"
| "serpent_written h (PObj cls args d slots) = serpent_instance h (PObj cls args d slots)"
| "serpent_written h v = Inr v"

definition serpent_dumps :: "host \<Rightarrow> pyval \<Rightarrow> failure + message" where
  "serpent_dumps h obj = bind (serpent_written h obj) (\<lambda>t. Inr (SerpentText t))"

fun serpent_eval :: "pyval \<Rightarrow> failure + pyval" where
  "serpent_eval (PList ts) = bind (mapM serpent_eval ts) (\<lambda>xs. Inr (PList xs))"
| "serpent_eval (PTuple ts) = bind (mapM serpent_eval ts) (\<lambda>xs. Inr (PTuple xs))"
| "serpent_eval (PSet ts) = bind (mapM serpent_eval ts) make_set"
| "serpent_eval (PDict ts) =
     bind (mapM (\<lambda>kv. bind (serpent_eval (fst kv)) (\<lambda>k.
                       bind (serpent_eval (snd kv)) (\<lambda>v.
                         if hashable k then Inr (k, v) else raise TypeError))) ts)
       (\<lambda>kvs. Inr (PDict (dict_of kvs)))"
| "serpent_eval t = Inr t"

definition serpent_loads :: "message \<Rightarrow> failure + pyval" where
  "serpent_loads m =
     (case m of SerpentText t \<Rightarrow> serpent_eval t | _ \<Rightarrow> raise (ValueError ''malformed serpent data''))"

section \<open>The format adapters\<close>

text \<open>
  \<open>_convertToBytes\<close>: the data received is a \<open>bytes\<close>, a \<open>bytearray\<close> or a
  \<open>memoryview\<close> of a message, and the message is taken out of it.
\<close>

datatype buffer = Bytes message | ByteArray message | MemoryView message

definition convertToBytes :: "buffer \<Rightarrow> message" where
  "convertToBytes data = (case data of Bytes m \<Rightarrow> m | ByteArray m \<Rightarrow> m | MemoryView m \<Rightarrow> m)"

text \<open>
  \<open>except (ValueError, TypeError)\<close>; the Unicode errors are subclasses of ValueError.
\<close>

definition value_or_type_error :: "error \<Rightarrow> bool" where
  "value_or_type_error e =
     (case e of
        TypeError \<Rightarrow> True
      | ValueError m \<Rightarrow> True
      | UnicodeDecodeError \<Rightarrow> True
      | UnicodeEncodeError \<Rightarrow> True
      | _ \<Rightarrow> False)"

definition MarshalSerializer_dumps ::
  "host \<Rightarrow> to_dict_registry \<Rightarrow> pyval \<Rightarrow> failure + message" where
  "MarshalSerializer_dumps h reg data =
     (case marshal_dumps data of
        Inr b \<Rightarrow> Inr b
      | Inl (e, l) \<Rightarrow>
          if value_or_type_error e
          then bind (MarshalSerializer_class_to_dict h reg data) marshal_dumps
          else Inl (e, l))"

definition MarshalSerializer_loads :: "host \<Rightarrow> registry \<Rightarrow> buffer \<Rightarrow> failure + pyval" where
  "MarshalSerializer_loads h reg data =
     bind (marshal_loads (convertToBytes data)) (recreate_classes (dict_to_class h reg))"

definition SerpentSerializer_dict_to_class :: "host \<Rightarrow> registry \<Rightarrow> pydict \<Rightarrow> failure + pyval" where
  "SerpentSerializer_dict_to_class h reg data =
     (if map_of data (PStr ''__class__'') = Some (PStr ''float'')
      then bind (getitem data ''value'') (\<lambda>v. bind (float_of h v) (\<lambda>x. Inr (PFloat x)))
      else dict_to_class h reg data)"

definition SerpentSerializer_dumps :: "host \<Rightarrow> pyval \<Rightarrow> failure + message" where
  "SerpentSerializer_dumps h data = serpent_dumps h data"

text \<open>\<open>SerpentSerializer.loads\<close> gives the data to the library as it is.\<close>

definition SerpentSerializer_loads :: "host \<Rightarrow> registry \<Rightarrow> buffer \<Rightarrow> failure + pyval" where
  "SerpentSerializer_loads h reg data =
     bind (serpent_loads (convertToBytes data)) (recreate_classes (SerpentSerializer_dict_to_class h reg))"

text \<open>
  \<open>JsonSerializer.dumps\<close> encodes the text of the document as UTF-8 and \<open>loads\<close>
  decodes it; the document is the same.
\<close>

definition JsonSerializer_dumps ::
  "host \<Rightarrow> replacements \<Rightarrow> to_dict_registry \<Rightarrow> pyval \<Rightarrow> failure + message" where
  "JsonSerializer_dumps h repl reg data =
     bind (json_dumps h (JsonSerializer_default h repl reg) data) (\<lambda>j. Inr (JsonText j))"

definition JsonSerializer_loads :: "host \<Rightarrow> registry \<Rightarrow> buffer \<Rightarrow> failure + pyval" where
  "JsonSerializer_loads h reg data =
     (case convertToBytes data of
        JsonText j \<Rightarrow> recreate_classes (dict_to_class h reg) (json_loads j)
      | _ \<Rightarrow> raise (ValueError ''Expecting value''))"

definition MsgpackSerializer_dumps ::
  "host \<Rightarrow> replacements \<Rightarrow> to_dict_registry \<Rightarrow> pyval \<Rightarrow> failure + message" where
  "MsgpackSerializer_dumps h repl reg data =
     msgpack_packb (MsgpackSerializer_default h repl reg) data"

definition object_hook :: "host \<Rightarrow> registry \<Rightarrow> pydict \<Rightarrow> failure + pyval" where
  "object_hook h reg obj =
     (if map_of obj (PStr ''__class__'') \<noteq> None then dict_to_class h reg obj else Inr (PDict obj))"

definition MsgpackSerializer_loads :: "host \<Rightarrow> registry \<Rightarrow> buffer \<Rightarrow> failure + pyval" where
  "MsgpackSerializer_loads h reg data =
     msgpack_unpackb (object_hook h reg) (ext_hook h) (convertToBytes data)"

text \<open>
  A value with no mapping that carries the key \<open>__class__\<close>, whose sets hold distinct
  hashable elements.
\<close>

fun plain :: "pyval \<Rightarrow> bool" where
  "plain (PSet xs) = ((\<forall>x \<in> set xs. plain x \<and> hashable x) \<and> distinct xs)"
| "plain (PList xs) = (\<forall>x \<in> set xs. plain x)"
| "plain (PTuple xs) = (\<forall>x \<in> set xs. plain x)"
| "plain (PDict d) = (map_of d (PStr ''__class__'') = None \<and> (\<forall>kv \<in> set d. plain (snd kv)))"
| "plain v = True"


section \<open>A reference host\<close>

text \<open>
  A concrete host, on which the definitions are evaluated. It decodes the ASCII
  fragment of UTF-8, builds an exception as \<open>BaseException.__init__\<close> does (the
  arguments become \<open>args\<close>, the instance dictionary is empty) and has the one data
  descriptor \<open>args\<close>.
\<close>

definition ascii_decode :: "bytes \<Rightarrow> string option" where
  "ascii_decode b = (if \<forall>x \<in> set b. x < 128 then Some (map (\<lambda>x. char_of (unat x)) b) else None)"

text \<open>
  Modelled from the spec: the module \<open>Pyro5.errors\<close> is not among the sources. The
  spec names the framework error types \<open>ProtocolError\<close>, \<open>SerializeError\<close> and
  \<open>SecurityError\<close>; \<open>PyroError\<close> is the base class the code tests against.
\<close>

definition ref_errors_ns :: "(string \<times> modattr) list" where
  "ref_errors_ns =
     [(''PyroError'', MClass ''Pyro5.errors.PyroError''),
      (''ProtocolError'', MClass ''Pyro5.errors.ProtocolError''),
      (''SerializeError'', MClass ''Pyro5.errors.SerializeError''),
      (''SecurityError'', MClass ''Pyro5.errors.SecurityError'')]"

definition ref_builtins_ns :: "(string \<times> modattr) list" where
  "ref_builtins_ns =
     [(''BaseException'', MClass ''builtins.BaseException''),
      (''Exception'', MClass ''builtins.Exception''),
      (''ValueError'', MClass ''builtins.ValueError''),
      (''ZeroDivisionError'', MClass ''builtins.ZeroDivisionError''),
      (''int'', MClass ''builtins.int''),
      (''len'', MOther)]"

definition ref_supers :: "string \<Rightarrow> string list" where
  "ref_supers c =
     (if c \<in> {''Pyro5.errors.ProtocolError'', ''Pyro5.errors.SerializeError'', ''Pyro5.errors.SecurityError''}
      then [c, ''Pyro5.errors.PyroError'', ''builtins.Exception'', ''builtins.BaseException'', ''builtins.object'']
      else if c = ''Pyro5.errors.PyroError'' \<or> c = ''builtins.ValueError'' \<or> c = ''builtins.ZeroDivisionError''
      then [c, ''builtins.Exception'', ''builtins.BaseException'', ''builtins.object'']
      else if c = ''builtins.Exception'' then [c, ''builtins.BaseException'', ''builtins.object'']
      else if c = ''builtins.object'' then [c]
      else [c, ''builtins.object''])"

definition ref_construct :: "string \<Rightarrow> pyval list \<Rightarrow> failure + pyval" where
  "ref_construct c args = Inr (PObj c args (Some []) [])"

definition ref_descr_set :: "pyval \<Rightarrow> string \<Rightarrow> pyval \<Rightarrow> (failure + pyval) option" where
  "ref_descr_set obj name v =
     (if name = ''args'' then
        Some (case obj of
                PObj cls args d slots \<Rightarrow> bind (iterate v) (\<lambda>xs. Inr (PObj cls xs d slots))
              | _ \<Rightarrow> raise AttributeError)
      else None)"

definition ref_setstate :: "string \<Rightarrow> pyval \<Rightarrow> failure + pyval" where
  "ref_setstate cls state = Inr (PObj cls [] (Some [(''state'', state)]) [])"

text \<open>
  The reference host keeps local time in UTC and converts three instants only: the
  epoch, 2001-09-09 01:46:40, which is 1000000000 seconds later (the double
  \<open>0x41CDCD6500000000\<close>), and 2001-09-09 01:46:40 at an offset of one hour from UTC,
  which is 999996400 seconds after the epoch (the double \<open>0x41CDCD5DF8000000\<close>) and
  2001-09-09 00:46:40 in local time. Of the text forms of a float it reads \<open>nan\<close>.
\<close>

definition epoch :: dtfields where
  "epoch = \<lparr> dt_year = 1970, dt_month = 1, dt_day = 1, dt_hour = 0, dt_minute = 0,
             dt_second = 0, dt_microsecond = 0 \<rparr>"

definition billion :: dtfields where
  "billion = \<lparr> dt_year = 2001, dt_month = 9, dt_day = 9, dt_hour = 1, dt_minute = 46,
               dt_second = 40, dt_microsecond = 0 \<rparr>"

definition hour_before :: dtfields where
  "hour_before = \<lparr> dt_year = 2001, dt_month = 9, dt_day = 9, dt_hour = 0, dt_minute = 46,
                   dt_second = 40, dt_microsecond = 0 \<rparr>"

definition ref_timestamp :: "dtfields \<Rightarrow> tzinfo option \<Rightarrow> failure + 64 word" where
  "ref_timestamp f tz =
     (case tz of
        None \<Rightarrow>
          if f = epoch then Inr 0 else if f = billion then Inr 0x41CDCD6500000000
          else raise (HostError ''instant not in the table'')
      | Some (TzInfo offset b) \<Rightarrow>
          if f = billion \<and> offset = 3600 then Inr 0x41CDCD5DF8000000
          else raise (HostError ''instant not in the table''))"

definition ref_fromtimestamp :: "64 word \<Rightarrow> failure + dtfields" where
  "ref_fromtimestamp t =
     (if t = 0 then Inr epoch else if t = 0x41CDCD6500000000 then Inr billion
      else if t = 0x41CDCD5DF8000000 then Inr hour_before
      else raise (HostError ''instant not in the table''))"

definition ref_float_of :: "pyval \<Rightarrow> failure + 64 word" where
  "ref_float_of v =
     (if v = PStr ''nan'' then Inr nan else raise (ValueError ''could not convert to float''))"

definition ref_host :: host where
  "ref_host =
     \<lparr> utf8_decode = ascii_decode,
       errors_ns = ref_errors_ns,
       builtins_ns = ref_builtins_ns,
       sqlite3_ns = None,
       supers = ref_supers,
       construct = ref_construct,
       descr_set = ref_descr_set,
       setstate_from_dict = ref_setstate,
       getstate = (\<lambda>obj. None),
       slots_of = (\<lambda>c. None),
       obj_str = (\<lambda>obj. ''?''),
       isoformat = (\<lambda>obj. ''?''),
       timestamp = ref_timestamp,
       fromtimestamp = ref_fromtimestamp,
       int_max_str_digits = 4300,
       float_of = ref_float_of,
       b64encode = (\<lambda>b. ''?''),
       serpent_instance = (\<lambda>obj. raise TypeError),
       recursion_limit = 1000 \<rparr>"

definition no_registry :: registry where
  "no_registry = (\<lambda>name. None)"

section \<open>Properties of the reconstruction\<close>

declare dict_to_class.simps [simp del]

lemma setattrs_plain:
  assumes "\<forall>(k, v) \<in> set kvs. \<exists>name. k = PStr name \<and> (\<forall>obj. descr_set h obj name v = None)"
    and "distinct (map fst kvs)"
  shows "\<exists>d'. setattrs h (PObj c a (Some d) sl) kvs = Inr (PObj c a (Some d') sl) \<and>
           map_of d' = (\<lambda>n. case map_of kvs (PStr n) of Some v \<Rightarrow> Some v | None \<Rightarrow> map_of d n)"
  using assms
proof (induction kvs arbitrary: d)
  case Nil
  then show ?case by simp
next
  case (Cons kv kvs)
  obtain k v where kv: "kv = (k, v)" by (cases kv)
  from Cons.prems kv obtain name where k: "k = PStr name" and nd: "\<forall>obj. descr_set h obj name v = None"
    by auto
  have step: "py_setattr h (PObj c a (Some d) sl) k v = Inr (PObj c a (Some (AList.update name v d)) sl)"
    by (simp add: py_setattr_def k nd)
  from Cons.prems have rest: "\<forall>(k, v) \<in> set kvs. \<exists>name. k = PStr name \<and> (\<forall>obj. descr_set h obj name v = None)"
    and dist: "distinct (map fst kvs)" and fresh: "PStr name \<notin> fst ` set kvs"
    by (simp_all add: kv k)
  from Cons.IH [OF rest dist, of "AList.update name v d"] obtain d' where
    d': "setattrs h (PObj c a (Some (AList.update name v d)) sl) kvs = Inr (PObj c a (Some d') sl)"
      "map_of d' = (\<lambda>n. case map_of kvs (PStr n) of Some v \<Rightarrow> Some v | None \<Rightarrow> map_of (AList.update name v d) n)"
    by blast
  from fresh have none: "map_of kvs (PStr name) = None"
    by (simp add: map_of_eq_None_iff)
  have "map_of d' = (\<lambda>n. case map_of (kv # kvs) (PStr n) of Some v \<Rightarrow> Some v | None \<Rightarrow> map_of d n)"
    by (rule ext) (auto simp add: d'(2) kv k none update_conv' split: option.splits)
  with d'(1) show ?case
    by (simp add: kv step)
qed

lemma make_exception_steps:
  assumes "getitem data ''args'' = Inr a" and "iterate a = Inr args"
    and "construct h c args = Inr ex"
    and "map_of data (PStr ''attributes'') = Some (PDict kvs)"
  shows "make_exception h (MClass c) data = setattrs h ex kvs"
  using assms by (simp add: make_exception_def bind_def items_def)

lemma dict_to_class_pyro_error:
  assumes "class_tag h data = Inr (PStr (''Pyro5.errors.'' @ short))"
    and "reg (''Pyro5.errors.'' @ short) = None"
    and "\<not> contains_dunder (''Pyro5.errors.'' @ short)"
    and "map_of (errors_ns h) short = Some (MClass c)"
    and "''Pyro5.errors.PyroError'' \<in> set (supers h c)"
  shows "dict_to_class h reg data = make_exception h (MClass c) data"
proof -
  have "split_dot 2 (''Pyro5.errors.'' @ short) = [''Pyro5'', ''errors'', short]"
    by (simp add: numeral_2_eq_2)
  then have "bind (index (split_dot 2 (''Pyro5.errors.'' @ short)) 2) (getattr_ns (errors_ns h)) = Inr (MClass c)"
    using assms(4) by (simp add: index_def bind_def getattr_ns_def)
  with assms show ?thesis
    by (simp add: dict_to_class.simps startswith_def issubclass_def)
qed

lemma dict_to_class_tagged_exception:
  assumes "class_tag h data = Inr (PStr name)" and "reg name = None" and "\<not> contains_dunder name"
    and "\<not> startswith name ''Pyro5.core.''" and "\<not> startswith name ''Pyro5.util.''"
    and "\<not> startswith name ''Pyro5.errors.''"
    and "truthy (case map_of data (PStr ''__exception__'') of None \<Rightarrow> PBool False | Some v \<Rightarrow> v)"
  shows "dict_to_class h reg data =
    (case all_exceptions h name of
       Some exceptiontype \<Rightarrow> make_exception h exceptiontype data
     | None \<Rightarrow>
         (case split_dot 1 name of
            [namespace, short_classname] \<Rightarrow>
              if namespace = ''builtins'' \<or> namespace = ''exceptions'' then
                (case getattr_ns (builtins_ns h) short_classname of
                   Inl e \<Rightarrow> Inl e
                 | Inr exceptiontype \<Rightarrow>
                     (case issubclass h exceptiontype ''builtins.BaseException'' of
                        Inl e \<Rightarrow> Inl e
                      | Inr True \<Rightarrow> make_exception h exceptiontype data
                      | Inr False \<Rightarrow> unsupported name))
              else if namespace = ''sqlite3'' \<and> endswith short_classname ''Error'' then
                (case sqlite3_ns h of
                   None \<Rightarrow> raise ImportError
                 | Some ns \<Rightarrow>
                     (case getattr_ns ns short_classname of
                        Inl e \<Rightarrow> Inl e
                      | Inr exceptiontype \<Rightarrow>
                          (case issubclass h exceptiontype ''builtins.BaseException'' of
                             Inl e \<Rightarrow> Inl e
                           | Inr True \<Rightarrow> make_exception h exceptiontype data
                           | Inr False \<Rightarrow> unsupported name)))
              else unsupported name
          | _ \<Rightarrow> raise (ValueError ''not enough values to unpack (expected 2, got 1)'')))"
proof -
  from assms(4) have "name \<noteq> ''Pyro5.core._ExceptionWrapper''"
    by (auto simp: startswith_def)
  with assms show ?thesis
    by (simp add: dict_to_class.simps)
qed

lemma dict_to_class_builtin_exception:
  assumes "class_tag h data = Inr (PStr (ns @ CHR ''.'' # short))"
    and "ns = ''builtins'' \<or> ns = ''exceptions''"
    and "reg (ns @ CHR ''.'' # short) = None" and "\<not> contains_dunder (ns @ CHR ''.'' # short)"
    and "truthy (case map_of data (PStr ''__exception__'') of None \<Rightarrow> PBool False | Some v \<Rightarrow> v)"
    and "all_exceptions h (ns @ CHR ''.'' # short) = None"
    and "map_of (builtins_ns h) short = Some (MClass c)"
    and "''builtins.BaseException'' \<in> set (supers h c)"
  shows "dict_to_class h reg data = make_exception h (MClass c) data"
proof -
  from assms(2) have split: "split_dot 1 (ns @ CHR ''.'' # short) = [ns, short]"
    by auto
  from assms(2) have "\<not> startswith (ns @ CHR ''.'' # short) ''Pyro5.core.''"
    "\<not> startswith (ns @ CHR ''.'' # short) ''Pyro5.util.''"
    "\<not> startswith (ns @ CHR ''.'' # short) ''Pyro5.errors.''"
    by (auto simp: startswith_def)
  note eq = dict_to_class_tagged_exception
    [where reg = reg and name = "ns @ CHR ''.'' # short", OF assms(1,3,4) this assms(5)]
  show ?thesis
    unfolding eq assms(6) split
    using assms(2,7,8) by (auto simp add: getattr_ns_def issubclass_def)
qed

lemma dict_to_class_sqlite3_exception:
  assumes "class_tag h data = Inr (PStr (''sqlite3.'' @ short))"
    and "reg (''sqlite3.'' @ short) = None" and "\<not> contains_dunder (''sqlite3.'' @ short)"
    and "truthy (case map_of data (PStr ''__exception__'') of None \<Rightarrow> PBool False | Some v \<Rightarrow> v)"
    and "all_exceptions h (''sqlite3.'' @ short) = None"
    and "endswith short ''Error''"
    and "sqlite3_ns h = Some ns" and "map_of ns short = Some (MClass c)"
    and "''builtins.BaseException'' \<in> set (supers h c)"
  shows "dict_to_class h reg data = make_exception h (MClass c) data"
proof -
  have split: "split_dot 1 (''sqlite3.'' @ short) = [''sqlite3'', short]"
    by simp
  have "\<not> startswith (''sqlite3.'' @ short) ''Pyro5.core.''"
    "\<not> startswith (''sqlite3.'' @ short) ''Pyro5.util.''"
    "\<not> startswith (''sqlite3.'' @ short) ''Pyro5.errors.''"
    by (auto simp: startswith_def)
  note eq = dict_to_class_tagged_exception
    [where reg = reg and name = "''sqlite3.'' @ short", OF assms(1,2,3) this assms(4)]
  show ?thesis
    unfolding eq assms(5) split
    using assms(6-9) by (simp add: getattr_ns_def issubclass_def)
qed

lemma dict_to_class_unsupported:
  assumes "class_tag h data = Inr (PStr name)" and "reg name = None" and "\<not> contains_dunder name"
    and "name \<notin> {''Pyro5.core.URI'', ''Pyro5.core.Proxy'', ''Pyro5.core.Daemon'',
           ''Pyro5.util.SerpentSerializer'', ''Pyro5.util.MarshalSerializer'',
           ''Pyro5.util.JsonSerializer'', ''Pyro5.util.MsgpackSerializer''}"
    and "\<not> startswith name ''Pyro5.errors.''"
    and "startswith name ''Pyro5.core.'' \<or> startswith name ''Pyro5.util.'' \<or>
         \<not> truthy (case map_of data (PStr ''__exception__'') of None \<Rightarrow> PBool False | Some v \<Rightarrow> v)"
  shows "dict_to_class h reg data = unsupported name"
  using assms by (auto simp add: dict_to_class.simps startswith_def)
lemma dict_to_class_missing_error_name:
  assumes "class_tag h data = Inr (PStr (''Pyro5.errors.'' @ short))"
    and "reg (''Pyro5.errors.'' @ short) = None"
    and "\<not> contains_dunder (''Pyro5.errors.'' @ short)"
    and "map_of (errors_ns h) short = None"
  shows "dict_to_class h reg data = raise AttributeError"
proof -
  have "split_dot 2 (''Pyro5.errors.'' @ short) = [''Pyro5'', ''errors'', short]"
    by (simp add: numeral_2_eq_2)
  then have "bind (index (split_dot 2 (''Pyro5.errors.'' @ short)) 2) (getattr_ns (errors_ns h)) =
      raise AttributeError"
    using assms(4) by (simp add: index_def bind_def getattr_ns_def raise_def)
  with assms show ?thesis
    by (simp add: dict_to_class.simps startswith_def raise_def)
qed

text \<open>
  C1. \<open>dict_to_class\<close> looks the type name of the record up in the custom registry
  first and returns what the registered converter returns, with no further check; the
  double-underscore gate comes after the lookup has missed. So a record whose type name
  contains \<open>__\<close> fails with SecurityError when no converter is registered for the name,
  and is reconstructed by the converter when one is. The type name is the text under
  the key \<open>__class__\<close>, decoded when it arrives as bytes.
\<close>

theorem dict_to_class_registry_first:
  assumes "class_tag h data = Inr (PStr name)"
  shows "(\<forall>conv. reg name = Some conv \<longrightarrow> dict_to_class h reg data = conv name data) \<and>
         (reg name = None \<and> contains_dunder name \<longrightarrow>
            dict_to_class h reg data =
              raise (SecurityError (''refused to deserialize types with double underscores in their name: '' @ name))) \<and>
         (\<forall>conv. dict_to_class h (register_dict_to_class reg name conv) data = conv name data) \<and>
         (contains_dunder name \<longrightarrow>
            dict_to_class h (unregister_dict_to_class reg name) data =
              raise (SecurityError (''refused to deserialize types with double underscores in their name: '' @ name)))"
  using assms
  by (simp add: dict_to_class.simps register_dict_to_class_def unregister_dict_to_class_def)

theorem dict_to_class_registry_first_witness:
  "class_tag ref_host [(PStr ''__class__'', PBytes [0x6D, 0x79, 0x5F, 0x5F, 0x74])] = Inr (PStr ''my__t'') \<and>
   dict_to_class ref_host (register_dict_to_class no_registry ''my__t'' (\<lambda>n d. Inr (PTuple [PStr n, PDict d])))
     [(PStr ''__class__'', PBytes [0x6D, 0x79, 0x5F, 0x5F, 0x74])] =
     Inr (PTuple [PStr ''my__t'', PDict [(PStr ''__class__'', PBytes [0x6D, 0x79, 0x5F, 0x5F, 0x74])]]) \<and>
   dict_to_class ref_host (unregister_dict_to_class no_registry ''my__t'')
     [(PStr ''__class__'', PBytes [0x6D, 0x79, 0x5F, 0x5F, 0x74])] =
     raise (SecurityError ''refused to deserialize types with double underscores in their name: my__t'')"
proof -
  have tag: "class_tag ref_host [(PStr ''__class__'', PBytes [0x6D, 0x79, 0x5F, 0x5F, 0x74])] = Inr (PStr ''my__t'')"
    by code_simp
  from dict_to_class_registry_first [OF tag, of no_registry] tag show ?thesis
    by simp
qed

text \<open>
  C2. A record whose type name is not registered, has no \<open>__\<close>, is none of the
  hardcoded names and resolves to no exception type should fail with SerializeError
  \<open>unsupported serialized class: <name>\<close>, after a warning. The code does so on
  the paths that fall through to its last statement (lemma \<open>dict_to_class_unsupported\<close>),
  but not where it looks a name up with an unguarded \<open>getattr\<close> or unpacks
  \<open>classname.split('.', 1)\<close>: an unknown name under \<open>Pyro5.errors.\<close> raises
  AttributeError, and a record marked \<open>__exception__\<close> whose name has no dot raises
  ValueError; neither logs the warning.
\<close>

theorem dict_to_class_unknown_name_not_serialize_error:
  "dict_to_class ref_host no_registry [(PStr ''__class__'', PStr ''Pyro5.errors.NoSuchError'')] =
     Inl (AttributeError, []) \<and>
   dict_to_class ref_host no_registry
     [(PStr ''__class__'', PStr ''Foo''), (PStr ''__exception__'', PBool True)] =
     Inl (ValueError ''not enough values to unpack (expected 2, got 1)'', []) \<and>
   unsupported ''Pyro5.errors.NoSuchError'' =
     Inl (SerializeError ''unsupported serialized class: Pyro5.errors.NoSuchError'',
          [''unsupported serialized class: Pyro5.errors.NoSuchError''])"
proof (intro conjI)
  show "dict_to_class ref_host no_registry [(PStr ''__class__'', PStr ''Pyro5.errors.NoSuchError'')] =
     Inl (AttributeError, [])"
    by code_simp
  show "dict_to_class ref_host no_registry
     [(PStr ''__class__'', PStr ''Foo''), (PStr ''__exception__'', PBool True)] =
     Inl (ValueError ''not enough values to unpack (expected 2, got 1)'', [])"
    by code_simp
  show "unsupported ''Pyro5.errors.NoSuchError'' =
     Inl (SerializeError ''unsupported serialized class: Pyro5.errors.NoSuchError'',
          [''unsupported serialized class: Pyro5.errors.NoSuchError''])"
    by (simp add: unsupported_def)
qed

text \<open>
  C4. Reconstructing an exception record whose type name resolves to an exception class
  (under \<open>Pyro5.errors.\<close>; or, for a record marked \<open>__exception__\<close>, in
  \<open>all_exceptions\<close>, in \<open>builtins\<close> or in \<open>sqlite3\<close>) calls the class with the
  stored \<open>args\<close> and then sets every entry of the stored \<open>attributes\<close> on the new
  instance, in order. Where the attribute names are plain (no data descriptor), the
  instance returned carries every stored entry and keeps what the constructor set
  otherwise. In particular the record of a \<open>ProtocolError\<close> with args
  \<open>("bad request",)\<close> and attributes \<open>{"extra": 42}\<close> yields an instance with
  \<open>args[0] = "bad request"\<close> and \<open>extra = 42\<close>.
\<close>

theorem dict_to_class_exception_record:
  assumes tag: "class_tag h data = Inr (PStr name)" and miss: "reg name = None"
    and gate: "\<not> contains_dunder name"
    and resolved:
      "(\<exists>short. name = ''Pyro5.errors.'' @ short \<and> map_of (errors_ns h) short = Some (MClass c) \<and>
          ''Pyro5.errors.PyroError'' \<in> set (supers h c)) \<or>
       (truthy (case map_of data (PStr ''__exception__'') of None \<Rightarrow> PBool False | Some v \<Rightarrow> v) \<and>
        \<not> startswith name ''Pyro5.core.'' \<and> \<not> startswith name ''Pyro5.util.'' \<and>
        \<not> startswith name ''Pyro5.errors.'' \<and>
        (all_exceptions h name = Some (MClass c) \<or>
         all_exceptions h name = None \<and>
           ((\<exists>short. (name = ''builtins.'' @ short \<or> name = ''exceptions.'' @ short) \<and>
              map_of (builtins_ns h) short = Some (MClass c) \<and>
              ''builtins.BaseException'' \<in> set (supers h c)) \<or>
            (\<exists>short ns. name = ''sqlite3.'' @ short \<and> endswith short ''Error'' \<and>
              sqlite3_ns h = Some ns \<and> map_of ns short = Some (MClass c) \<and>
              ''builtins.BaseException'' \<in> set (supers h c)))))"
    and args: "getitem data ''args'' = Inr a" "iterate a = Inr args"
    and new: "construct h c args = Inr (PObj c' a' (Some d) sl)"
    and attrs: "map_of data (PStr ''attributes'') = Some (PDict kvs)"
    and plain: "\<forall>(k, v) \<in> set kvs. \<exists>n. k = PStr n \<and> (\<forall>obj. descr_set h obj n v = None)"
    and keys: "distinct (map fst kvs)"
  shows "dict_to_class h reg data = setattrs h (PObj c' a' (Some d) sl) kvs \<and>
    (\<exists>d'. dict_to_class h reg data = Inr (PObj c' a' (Some d') sl) \<and>
       (\<forall>(k, v) \<in> set kvs. \<exists>n. k = PStr n \<and> map_of d' n = Some v) \<and>
       (\<forall>n. PStr n \<notin> fst ` set kvs \<longrightarrow> map_of d' n = map_of d n)) \<and>
    (data = [(PStr ''__class__'', PStr ''Pyro5.errors.ProtocolError''),
             (PStr ''args'', PTuple [PStr ''bad request'']),
             (PStr ''attributes'', PDict [(PStr ''extra'', PInt 42)])] \<and>
     c' = c \<and> a' = args \<and> d = [] \<and> sl = [] \<longrightarrow>
       dict_to_class h reg data =
         Inr (PObj c [PStr ''bad request''] (Some [(''extra'', PInt 42)]) []))"
proof -
  have me: "dict_to_class h reg data = make_exception h (MClass c) data"
    using resolved
  proof (elim disjE conjE exE)
    fix short
    assume "name = ''Pyro5.errors.'' @ short" "map_of (errors_ns h) short = Some (MClass c)"
      "''Pyro5.errors.PyroError'' \<in> set (supers h c)"
    with tag miss gate show ?thesis
      by (simp add: dict_to_class_pyro_error)
  next
    assume "truthy (case map_of data (PStr ''__exception__'') of None \<Rightarrow> PBool False | Some v \<Rightarrow> v)"
      "\<not> startswith name ''Pyro5.core.''" "\<not> startswith name ''Pyro5.util.''"
      "\<not> startswith name ''Pyro5.errors.''" "all_exceptions h name = Some (MClass c)"
    with tag miss gate show ?thesis
      by (simp add: dict_to_class_tagged_exception)
  next
    fix short
    assume t: "truthy (case map_of data (PStr ''__exception__'') of None \<Rightarrow> PBool False | Some v \<Rightarrow> v)"
      and n: "all_exceptions h name = None"
      and s: "name = ''builtins.'' @ short"
      and r: "map_of (builtins_ns h) short = Some (MClass c)"
        "''builtins.BaseException'' \<in> set (supers h c)"
    have name: "name = ''builtins'' @ CHR ''.'' # short"
      using s by simp
    have ns: "''builtins'' = ''builtins'' \<or> ''builtins'' = ''exceptions''"
      by simp
    from dict_to_class_builtin_exception
      [where reg = reg, OF tag [unfolded name] ns miss [unfolded name] gate [unfolded name] t
        n [unfolded name] r]
    show ?thesis
      unfolding name .
  next
    fix short
    assume t: "truthy (case map_of data (PStr ''__exception__'') of None \<Rightarrow> PBool False | Some v \<Rightarrow> v)"
      and n: "all_exceptions h name = None"
      and s: "name = ''exceptions.'' @ short"
      and r: "map_of (builtins_ns h) short = Some (MClass c)"
        "''builtins.BaseException'' \<in> set (supers h c)"
    have name: "name = ''exceptions'' @ CHR ''.'' # short"
      using s by simp
    have ns: "''exceptions'' = ''builtins'' \<or> ''exceptions'' = ''exceptions''"
      by simp
    from dict_to_class_builtin_exception
      [where reg = reg, OF tag [unfolded name] ns miss [unfolded name] gate [unfolded name] t
        n [unfolded name] r]
    show ?thesis
      unfolding name .
  next
    fix short ns
    assume "truthy (case map_of data (PStr ''__exception__'') of None \<Rightarrow> PBool False | Some v \<Rightarrow> v)"
      "all_exceptions h name = None" "name = ''sqlite3.'' @ short" "endswith short ''Error''"
      "sqlite3_ns h = Some ns" "map_of ns short = Some (MClass c)"
      "''builtins.BaseException'' \<in> set (supers h c)"
    with tag miss gate show ?thesis
      by (simp add: dict_to_class_sqlite3_exception)
  qed
  have steps: "dict_to_class h reg data = setattrs h (PObj c' a' (Some d) sl) kvs"
    unfolding me by (rule make_exception_steps [OF args new attrs])
  from setattrs_plain [OF plain keys, of c' a' d sl] obtain d' where
    d': "setattrs h (PObj c' a' (Some d) sl) kvs = Inr (PObj c' a' (Some d') sl)"
      "map_of d' = (\<lambda>n. case map_of kvs (PStr n) of Some v \<Rightarrow> Some v | None \<Rightarrow> map_of d n)"
    by blast
  have stored: "\<forall>(k, v) \<in> set kvs. \<exists>n. k = PStr n \<and> map_of d' n = Some v"
    using plain keys by (auto simp: d'(2))
  have kept: "\<forall>n. PStr n \<notin> fst ` set kvs \<longrightarrow> map_of d' n = map_of d n"
    by (auto simp: d'(2) split: option.splits dest: map_of_SomeD intro: rev_image_eqI)
  have example: "data = [(PStr ''__class__'', PStr ''Pyro5.errors.ProtocolError''),
             (PStr ''args'', PTuple [PStr ''bad request'']),
             (PStr ''attributes'', PDict [(PStr ''extra'', PInt 42)])] \<and>
     c' = c \<and> a' = args \<and> d = [] \<and> sl = [] \<longrightarrow>
       dict_to_class h reg data =
         Inr (PObj c [PStr ''bad request''] (Some [(''extra'', PInt 42)]) [])"
  proof (intro impI, elim conjE)
    assume data: "data = [(PStr ''__class__'', PStr ''Pyro5.errors.ProtocolError''),
             (PStr ''args'', PTuple [PStr ''bad request'']),
             (PStr ''attributes'', PDict [(PStr ''extra'', PInt 42)])]"
      and eqs: "c' = c" "a' = args" "d = []" "sl = []"
    from args data have "args = [PStr ''bad request'']"
      by (auto simp: getitem_def)
    moreover from attrs data have "kvs = [(PStr ''extra'', PInt 42)]"
      by simp
    moreover from plain this have "descr_set h (PObj c [PStr ''bad request''] (Some []) []) ''extra'' (PInt 42) = None"
      by simp
    ultimately show "dict_to_class h reg data =
         Inr (PObj c [PStr ''bad request''] (Some [(''extra'', PInt 42)]) [])"
      unfolding steps using eqs by (simp add: py_setattr_def)
  qed
  from steps d'(1) stored kept example show ?thesis
    by simp
qed

theorem dict_to_class_exception_record_witness:
  "dict_to_class ref_host no_registry
     [(PStr ''__class__'', PStr ''Pyro5.errors.ProtocolError''),
      (PStr ''args'', PTuple [PStr ''bad request'']),
      (PStr ''attributes'', PDict [(PStr ''extra'', PInt 42)])] =
     Inr (PObj ''Pyro5.errors.ProtocolError'' [PStr ''bad request''] (Some [(''extra'', PInt 42)]) [])"
proof -
  let ?data = "[(PStr ''__class__'', PStr ''Pyro5.errors.ProtocolError''),
      (PStr ''args'', PTuple [PStr ''bad request'']),
      (PStr ''attributes'', PDict [(PStr ''extra'', PInt 42)])]"
  have tag: "class_tag ref_host ?data = Inr (PStr ''Pyro5.errors.ProtocolError'')"
    by (simp add: class_tag_def)
  have miss: "no_registry ''Pyro5.errors.ProtocolError'' = None"
    by (simp add: no_registry_def)
  have gate: "\<not> contains_dunder ''Pyro5.errors.ProtocolError''"
    by simp
  have resolved: "map_of (errors_ns ref_host) ''ProtocolError'' = Some (MClass ''Pyro5.errors.ProtocolError'')"
    "''Pyro5.errors.PyroError'' \<in> set (supers ref_host ''Pyro5.errors.ProtocolError'')"
    by (simp_all add: ref_host_def ref_errors_ns_def ref_supers_def)
  have args: "getitem ?data ''args'' = Inr (PTuple [PStr ''bad request''])"
    "iterate (PTuple [PStr ''bad request'']) = Inr [PStr ''bad request'']"
    by (simp_all add: getitem_def)
  have new: "construct ref_host ''Pyro5.errors.ProtocolError'' [PStr ''bad request''] =
      Inr (PObj ''Pyro5.errors.ProtocolError'' [PStr ''bad request''] (Some []) [])"
    by (simp add: ref_host_def ref_construct_def)
  have attrs: "map_of ?data (PStr ''attributes'') = Some (PDict [(PStr ''extra'', PInt 42)])"
    by simp
  have plain: "\<forall>(k, v) \<in> set [(PStr ''extra'', PInt 42)]. \<exists>n. k = PStr n \<and> (\<forall>obj. descr_set ref_host obj n v = None)"
    by (simp add: ref_host_def ref_descr_set_def)
  have keys: "distinct (map fst [(PStr ''extra'', PInt 42)])"
    by simp
  from dict_to_class_exception_record
    [where h = ref_host and reg = no_registry and data = ?data and c = "''Pyro5.errors.ProtocolError''",
     OF tag miss gate _ args new attrs plain keys, THEN conjunct2, THEN conjunct2] resolved
  show ?thesis
    by simp
qed

section \<open>Properties of the compression wrapper, the conversion and the extension codec\<close>

lemma length_pack_d: "length (pack_d w) = 8"
  by (simp add: pack_d_def)

lemma le_word_bytes:
  fixes w :: "64 word"
  shows "foldr (\<lambda>b acc. ucast b OR push_bit 8 acc)
           (map (\<lambda>i. ucast (drop_bit (8 * i) w) :: 8 word) [k..<k + n]) 0 =
         take_bit (8 * n) (drop_bit (8 * k) w)"
proof (induction n arbitrary: k)
  case 0
  then show ?case by simp
next
  case (Suc n)
  have l: "[k..<k + Suc n] = k # [Suc k..<Suc k + n]"
    by (simp add: upt_rec)
  have "ucast (ucast (drop_bit (8 * k) w) :: 8 word) OR
          push_bit 8 (take_bit (8 * n) (drop_bit (8 * Suc k) w)) =
        take_bit (8 * Suc n) (drop_bit (8 * k) w)"
    by (rule bit_eqI) (auto simp add: bit_simps add.commute)
  with Suc.IH [of "Suc k"] show ?case
    unfolding l by simp
qed

lemma le_word_pack_d: "le_word (pack_d w) = w"
  using le_word_bytes [of w 0 8] by (simp add: le_word_def pack_d_def take_bit_word_eq_self)

lemma unpack_dd_pack_dd: "unpack_dd (pack_dd x y) = Inr (x, y)"
  by (simp add: unpack_dd_def pack_dd_def length_pack_d le_word_pack_d)

text \<open>
  C5. \<open>serializeData(value, compress)\<close> returns the serialized payload with flag
  False when \<open>compress\<close> is false or the payload has fewer than 200 bytes; otherwise
  the compressed form with flag True exactly when it is strictly shorter than the
  payload, and the payload with flag False when it is not. A payload of 50 bytes comes
  back unmodified with flag False.
\<close>

theorem serializeData_compression:
  assumes "dumps v = Inr p"
  shows "case serializeData dumps zlib_compress v compress of
           Inl e \<Rightarrow> False
         | Inr (out, flag) \<Rightarrow>
             (\<not> compress \<or> length p < 200 \<longrightarrow> out = p \<and> \<not> flag) \<and>
             (compress \<and> 200 \<le> length p \<longrightarrow>
                (flag \<longleftrightarrow> length (zlib_compress p) < length p) \<and>
                (flag \<longrightarrow> out = zlib_compress p) \<and> (\<not> flag \<longrightarrow> out = p)) \<and>
             (compress \<and> length p = 50 \<longrightarrow> out = p \<and> \<not> flag)"
  using assms by (auto simp add: serializeData_def bind_def compressdata_def Let_def)

theorem serializeData_compression_witness:
  "serializeData (\<lambda>v. Inr (replicate 50 0)) (take 10) PNone True = Inr (replicate 50 0, False) \<and>
   serializeData (\<lambda>v. Inr (replicate 300 0)) (take 10) PNone True =
     Inr (take 10 (replicate 300 0), True)"
proof -
  have "case serializeData (\<lambda>v. Inr (replicate 50 0)) (take 10) PNone True of
          Inl e \<Rightarrow> False
        | Inr (out, flag) \<Rightarrow> out = replicate 50 (0::byte) \<and> \<not> flag"
    using serializeData_compression
      [where dumps = "\<lambda>v. Inr (replicate 50 0)" and v = PNone and p = "replicate 50 0"
         and zlib_compress = "take 10" and compress = True]
    by (simp split: sum.splits prod.splits)
  moreover have "case serializeData (\<lambda>v. Inr (replicate 300 0)) (take 10) PNone True of
          Inl e \<Rightarrow> False
        | Inr (out, flag) \<Rightarrow> out = take 10 (replicate 300 (0::byte)) \<and> flag"
    using serializeData_compression
      [where dumps = "\<lambda>v. Inr (replicate 300 0)" and v = PNone and p = "replicate 300 0"
         and zlib_compress = "take 10" and compress = True]
    by (simp split: sum.splits prod.splits)
  ultimately show ?thesis
    by (simp split: sum.splits prod.splits)
qed

text \<open>
  C9. \<open>class_to_dict\<close> on a value whose exact type is \<open>set\<close>, \<open>dict\<close>,
  \<open>list\<close> or \<open>tuple\<close> raises ValueError, when no class of the custom registry
  matches the value: it returns no record and raises no SerializeError. The marshal
  adapter's override does the same.
\<close>

theorem class_to_dict_bare_container:
  assumes "obj = PSet xs \<or> obj = PList xs \<or> obj = PTuple xs \<or> obj = PDict d"
    and "\<forall>(clazz, converter) \<in> set reg. \<not> isinstance h obj clazz"
  shows "class_to_dict h cls_name reg obj =
           Inl (ValueError (''can't serialize type '' @ class_repr (type_name obj) @ '' into a dict''), []) \<and>
         MarshalSerializer_class_to_dict h reg obj =
           Inl (ValueError (''can't serialize type '' @ class_repr (type_name obj) @ '' into a dict''), [])"
proof -
  from assms(2) have "find (\<lambda>(clazz, converter). isinstance h obj clazz) reg = None"
    by (auto simp: find_None_iff)
  with assms(1) show ?thesis
    by (auto simp: class_to_dict_def MarshalSerializer_class_to_dict_def type_name_def raise_def)
qed

theorem class_to_dict_bare_container_witness:
  "class_to_dict ref_host ''JsonSerializer''
     [(''builtins.int'', \<lambda>obj. Inr (PDict [(PStr ''__class__'', PStr ''int'')]))] (PList [PInt 1]) =
     Inl (ValueError (''can't serialize type <class '' @ [CHR 0x27] @ ''list'' @ [CHR 0x27] @ ''> into a dict''), [])"
proof -
  have "\<forall>(clazz, converter) \<in> set [(''builtins.int'', \<lambda>obj. Inr (PDict [(PStr ''__class__'', PStr ''int'')]))].
          \<not> isinstance ref_host (PList [PInt 1]) clazz"
    by (simp add: isinstance_def type_name_def ref_host_def ref_supers_def)
  from class_to_dict_bare_container [where obj = "PList [PInt 1]" and xs = "[PInt 1]", OF _ this,
    of undefined "''JsonSerializer''"]
  show ?thesis
    by (simp add: type_name_def class_repr_def startswith_def)
qed

text \<open>
  C6. For every complex number the msgpack adapter's hook produces the extension value
  with tag \<open>0x30\<close> and a payload of 16 bytes, the double of the real part followed by
  the double of the imaginary part, and \<open>ext_hook\<close> maps tag \<open>0x30\<close> with that payload
  back to the same complex number. For \<open>3+4i\<close> the payload is the doubles 3.0 and 4.0.
  (No type replacement is registered for \<open>complex\<close>.)
\<close>

theorem msgpack_complex_roundtrip:
  assumes "repl ''builtins.complex'' = None"
  shows "MsgpackSerializer_default h repl reg (PComplex r i) = Inr (PExtType 0x30 (pack_d r @ pack_d i)) \<and>
         length (pack_d r) = 8 \<and> length (pack_d i) = 8 \<and>
         unpack_d (pack_d r) = Inr r \<and> unpack_d (pack_d i) = Inr i \<and>
         ext_hook h 0x30 (pack_d r @ pack_d i) = Inr (PComplex r i) \<and>
         double_value 0x4008000000000000 = 3 \<and> double_value 0x4010000000000000 = 4 \<and>
         MsgpackSerializer_default h repl reg (PComplex 0x4008000000000000 0x4010000000000000) =
           Inr (PExtType 0x30 [0, 0, 0, 0, 0, 0, 0x08, 0x40, 0, 0, 0, 0, 0, 0, 0x10, 0x40]) \<and>
         ext_hook h 0x30 [0, 0, 0, 0, 0, 0, 0x08, 0x40, 0, 0, 0, 0, 0, 0, 0x10, 0x40] =
           Inr (PComplex 0x4008000000000000 0x4010000000000000)"
proof -
  have hook: "\<And>x y. MsgpackSerializer_default h repl reg (PComplex x y) = Inr (PExtType 0x30 (pack_d x @ pack_d y))"
    using assms by (simp add: MsgpackSerializer_default_def replace_def type_name_def bind_def pack_dd_def)
  have dec: "\<And>x y. ext_hook h 0x30 (pack_d x @ pack_d y) = Inr (PComplex x y)"
    using unpack_dd_pack_dd by (simp add: ext_hook_def bind_def pack_dd_def)
  have three: "pack_d 0x4008000000000000 = [0, 0, 0, 0, 0, 0, 0x08, 0x40]"
    by (simp add: pack_d_def upt_rec)
  have four: "pack_d 0x4010000000000000 = [0, 0, 0, 0, 0, 0, 0x10, 0x40]"
    by (simp add: pack_d_def upt_rec)
  have vals: "double_value 0x4008000000000000 = 3" "double_value 0x4010000000000000 = 4"
    by (simp_all add: double_value_def)
  from hook [of r i] dec [of r i]
    hook [of "0x4008000000000000" "0x4010000000000000"]
    dec [of "0x4008000000000000" "0x4010000000000000"] vals
  show ?thesis
    by (simp add: three four length_pack_d unpack_d_def le_word_pack_d)
qed

theorem msgpack_complex_roundtrip_witness:
  "MsgpackSerializer_default ref_host (\<lambda>t. None) [] (PComplex 0x4008000000000000 0x4010000000000000) =
     Inr (PExtType 0x30 [0, 0, 0, 0, 0, 0, 0x08, 0x40, 0, 0, 0, 0, 0, 0, 0x10, 0x40]) \<and>
   ext_hook ref_host 0x30 [0, 0, 0, 0, 0, 0, 0x08, 0x40, 0, 0, 0, 0, 0, 0, 0x10, 0x40] =
     Inr (PComplex 0x4008000000000000 0x4010000000000000)"
  using msgpack_complex_roundtrip [of "\<lambda>t. None" ref_host "[]" 0 0]
  by simp

text \<open>
  C8. \<open>ext_hook\<close> dispatches on the tag alone: a value it returns for tag \<open>0x30\<close> is a
  complex number, for \<open>0x31\<close> an integer, for \<open>0x32\<close> a datetime without tzinfo, for
  \<open>0x33\<close> a date; a payload of the right layout is decoded (16 bytes for \<open>0x30\<close>, 8
  bytes holding an ordinal of the years 1 to 9999 for \<open>0x33\<close>, 8 bytes the host can
  convert for \<open>0x32\<close>); and every other tag raises SerializeError, whatever the
  payload.
\<close>

theorem ext_hook_dispatch:
  "(code \<notin> {0x30, 0x31, 0x32, 0x33} \<longrightarrow>
      ext_hook h code data = Inl (SerializeError (''invalid ext code for msgpack: '' @ str_int code), [])) \<and>
   (\<forall>v. ext_hook h 0x30 data = Inr v \<longrightarrow> (\<exists>r i. v = PComplex r i)) \<and>
   (\<forall>v. ext_hook h 0x31 data = Inr v \<longrightarrow> (\<exists>n. v = PInt n)) \<and>
   (\<forall>v. ext_hook h 0x32 data = Inr v \<longrightarrow> (\<exists>f. v = PDatetime f None)) \<and>
   (\<forall>v. ext_hook h 0x33 data = Inr v \<longrightarrow> (\<exists>n. v = PDate n)) \<and>
   (length data = 16 \<longrightarrow> (\<exists>r i. ext_hook h 0x30 data = Inr (PComplex r i))) \<and>
   (\<forall>n. int_of_bytes h data = Inr n \<longrightarrow> ext_hook h 0x31 data = Inr (PInt n)) \<and>
   (\<forall>f. length data = 8 \<and> fromtimestamp h (le_word data) = Inr f \<longrightarrow>
      ext_hook h 0x32 data = Inr (PDatetime f None)) \<and>
   (length data = 8 \<and> 1 \<le> sint (le_word data) \<and> sint (le_word data) \<le> 3652059 \<longrightarrow>
      ext_hook h 0x33 data = Inr (PDate (sint (le_word data))))"
proof -
  have other: "code \<notin> {0x30, 0x31, 0x32, 0x33} \<longrightarrow>
      ext_hook h code data = Inl (SerializeError (''invalid ext code for msgpack: '' @ str_int code), [])"
    by (simp add: ext_hook_def raise_def)
  have k0: "\<forall>v. ext_hook h 0x30 data = Inr v \<longrightarrow> (\<exists>r i. v = PComplex r i)"
    by (auto simp: ext_hook_def bind_def unpack_dd_def raise_def split: if_splits)
  have k1: "\<forall>v. ext_hook h 0x31 data = Inr v \<longrightarrow> (\<exists>n. v = PInt n)"
    by (auto simp: ext_hook_def bind_def split: sum.splits)
  have k2: "\<forall>v. ext_hook h 0x32 data = Inr v \<longrightarrow> (\<exists>f. v = PDatetime f None)"
    by (auto simp: ext_hook_def bind_def split: sum.splits)
  have k3: "\<forall>v. ext_hook h 0x33 data = Inr v \<longrightarrow> (\<exists>n. v = PDate n)"
    by (auto simp: ext_hook_def bind_def fromordinal_def raise_def split: sum.splits if_splits)
  have d0: "length data = 16 \<longrightarrow> (\<exists>r i. ext_hook h 0x30 data = Inr (PComplex r i))"
    by (simp add: ext_hook_def bind_def unpack_dd_def)
  have d1: "\<forall>n. int_of_bytes h data = Inr n \<longrightarrow> ext_hook h 0x31 data = Inr (PInt n)"
    by (simp add: ext_hook_def bind_def)
  have d2: "\<forall>f. length data = 8 \<and> fromtimestamp h (le_word data) = Inr f \<longrightarrow>
      ext_hook h 0x32 data = Inr (PDatetime f None)"
    by (simp add: ext_hook_def bind_def unpack_d_def)
  have d3: "length data = 8 \<and> 1 \<le> sint (le_word data) \<and> sint (le_word data) \<le> 3652059 \<longrightarrow>
      ext_hook h 0x33 data = Inr (PDate (sint (le_word data)))"
    by (simp add: ext_hook_def bind_def unpack_l_def fromordinal_def)
  from other k0 k1 k2 k3 d0 d1 d2 d3 show ?thesis
    by blast
qed

theorem ext_hook_dispatch_witness:
  "ext_hook ref_host 0x34 [1, 2, 3] = Inl (SerializeError ''invalid ext code for msgpack: 52'', []) \<and>
   ext_hook ref_host 0x31 [0x2D, 0x34, 0x32] = Inr (PInt (- 42)) \<and>
   ext_hook ref_host 0x32 [0, 0, 0, 0, 0x65, 0xCD, 0xCD, 0x41] = Inr (PDatetime billion None) \<and>
   ext_hook ref_host 0x33 [0x21, 0x4A, 0x0B, 0, 0, 0, 0, 0] = Inr (PDate 739873)"
proof -
  have s: "str_int 0x34 = ''52''"
    by (simp add: str_int_def digit_char_def)
  have n: "int_of_bytes ref_host [0x2D, 0x34, 0x32] = Inr (- 42)"
    by (simp add: int_of_bytes_def strip_def is_space_def is_digit_def ref_host_def Let_def)
  have w: "le_word [0, 0, 0, 0, 0x65, 0xCD, 0xCD, 0x41] = 0x41CDCD6500000000"
    by (simp add: le_word_def)
  have f: "fromtimestamp ref_host 0x41CDCD6500000000 = Inr billion"
    by (simp add: ref_host_def ref_fromtimestamp_def)
  have o: "le_word [0x21, 0x4A, 0x0B, 0, 0, 0, 0, 0] = 739873"
    by (simp add: le_word_def)
  have so: "sint (739873 :: 64 word) = 739873"
    by simp
  from ext_hook_dispatch [of "0x34" ref_host "[1, 2, 3]"] s
  have a: "ext_hook ref_host 0x34 [1, 2, 3] = Inl (SerializeError ''invalid ext code for msgpack: 52'', [])"
    by simp
  from ext_hook_dispatch [of 0 ref_host "[0x2D, 0x34, 0x32]"] n
  have b: "ext_hook ref_host 0x31 [0x2D, 0x34, 0x32] = Inr (PInt (- 42))"
    by simp
  from ext_hook_dispatch [of 0 ref_host "[0, 0, 0, 0, 0x65, 0xCD, 0xCD, 0x41]"] w f
  have c: "ext_hook ref_host 0x32 [0, 0, 0, 0, 0x65, 0xCD, 0xCD, 0x41] = Inr (PDatetime billion None)"
    by simp
  from ext_hook_dispatch [of 0 ref_host "[0x21, 0x4A, 0x0B, 0, 0, 0, 0, 0]"] o so
  have d: "ext_hook ref_host 0x33 [0x21, 0x4A, 0x0B, 0, 0, 0, 0, 0] = Inr (PDate 739873)"
    by simp
  from a b c d show ?thesis
    by simp
qed

section \<open>Properties of the datetime encoding\<close>

lemma msgpack_default_datetime:
  assumes "repl ''datetime.datetime'' = None"
  shows "MsgpackSerializer_default h repl reg (PDatetime f tz) =
           (if (case tz of None \<Rightarrow> False | Some z \<Rightarrow> tz_true z)
            then Inl (SerializeError ''msgpack cannot serialize datetime with timezone info'', [])
            else bind (timestamp h f tz) (\<lambda>t. Inr (PExtType 0x32 (pack_d t))))"
  using assms
  by (simp add: MsgpackSerializer_default_def replace_def type_name_def bind_def raise_def)

lemma msgpack_dumps_datetime:
  "MsgpackSerializer_dumps h repl reg (PDatetime f tz) =
     bind (MsgpackSerializer_default h repl reg (PDatetime f tz)) (\<lambda>v.
       bind (msgpack_pack (Suc DEFAULT_RECURSE_LIMIT) (MsgpackSerializer_default h repl reg) True v)
         (\<lambda>t. Inr (Msgpacked t)))"
  by (simp add: MsgpackSerializer_dumps_def msgpack_packb_def bind_def split: sum.splits)

lemma msgpack_dumps_datetime_true_tzinfo:
  assumes "repl ''datetime.datetime'' = None" and "tz_true z"
  shows "MsgpackSerializer_dumps h repl reg (PDatetime f (Some z)) =
           Inl (SerializeError ''msgpack cannot serialize datetime with timezone info'', [])"
  using assms by (simp add: msgpack_dumps_datetime msgpack_default_datetime bind_def)

lemma msgpack_dumps_datetime_naive:
  assumes "repl ''datetime.datetime'' = None" and "timestamp h f None = Inr t"
  shows "MsgpackSerializer_dumps h repl reg (PDatetime f None) = Inr (Msgpacked (PExtType 0x32 (pack_d t)))"
    and "length (pack_d t) = 8" and "unpack_d (pack_d t) = Inr t"
  using assms
  by (simp_all add: msgpack_dumps_datetime msgpack_default_datetime bind_def length_pack_d
      unpack_d_def le_word_pack_d)

lemma msgpack_dumps_datetime_false_tzinfo:
  assumes "repl ''datetime.datetime'' = None" and "\<not> tz_true z" and "timestamp h f (Some z) = Inr t"
  shows "MsgpackSerializer_dumps h repl reg (PDatetime f (Some z)) = Inr (Msgpacked (PExtType 0x32 (pack_d t)))"
  using assms
  by (simp add: msgpack_dumps_datetime msgpack_default_datetime bind_def)

text \<open>
  C7. The msgpack adapter raises SerializeError for a datetime whose tzinfo is true, and
  encodes a naive datetime as the extension value with tag \<open>0x32\<close> and the 8 bytes of
  the double of its POSIX seconds (the three lemmas above). But the test of the hook is
  \<open>if obj.tzinfo\<close>, the truth value of the tzinfo and not its presence: a datetime
  that carries a tzinfo which is false is encoded under tag \<open>0x32\<close> like a naive one,
  and is read back without its offset. On the reference host, 2001-09-09 01:46:40 at one
  hour from UTC with a false tzinfo is serialized as the double 999996400 and
  deserialized as the naive datetime 2001-09-09 00:46:40; with a true tzinfo of the same
  offset it is refused.
\<close>

theorem msgpack_datetime_false_tzinfo_encoded:
  "\<not> tz_true (TzInfo 3600 False) \<and>
   MsgpackSerializer_default ref_host (\<lambda>t. None) [] (PDatetime billion (Some (TzInfo 3600 False))) =
     Inr (PExtType 0x32 [0, 0, 0, 0xF8, 0x5D, 0xCD, 0xCD, 0x41]) \<and>
   MsgpackSerializer_dumps ref_host (\<lambda>t. None) [] (PDatetime billion (Some (TzInfo 3600 False))) =
     Inr (Msgpacked (PExtType 0x32 [0, 0, 0, 0xF8, 0x5D, 0xCD, 0xCD, 0x41])) \<and>
   MsgpackSerializer_loads ref_host no_registry
       (Bytes (Msgpacked (PExtType 0x32 [0, 0, 0, 0xF8, 0x5D, 0xCD, 0xCD, 0x41]))) =
     Inr (PDatetime hour_before None) \<and>
   MsgpackSerializer_dumps ref_host (\<lambda>t. None) [] (PDatetime billion (Some (TzInfo 3600 True))) =
     Inl (SerializeError ''msgpack cannot serialize datetime with timezone info'', [])"
proof -
  have t: "timestamp ref_host billion (Some (TzInfo 3600 False)) = Inr 0x41CDCD5DF8000000"
    by (simp add: ref_host_def ref_timestamp_def)
  have p: "pack_d 0x41CDCD5DF8000000 = [0, 0, 0, 0xF8, 0x5D, 0xCD, 0xCD, 0x41]"
    by (simp add: pack_d_def upt_rec drop_bit_eq_div)
  have f: "tz_true (TzInfo 3600 False) = False"
    by (simp add: tz_true_def)
  have d: "MsgpackSerializer_default ref_host (\<lambda>t. None) [] (PDatetime billion (Some (TzInfo 3600 False))) =
     Inr (PExtType 0x32 [0, 0, 0, 0xF8, 0x5D, 0xCD, 0xCD, 0x41])"
    by (simp add: msgpack_default_datetime f t p bind_def)
  have s: "MsgpackSerializer_dumps ref_host (\<lambda>t. None) [] (PDatetime billion (Some (TzInfo 3600 False))) =
     Inr (Msgpacked (PExtType 0x32 [0, 0, 0, 0xF8, 0x5D, 0xCD, 0xCD, 0x41]))"
    by (simp add: msgpack_dumps_datetime d bind_def)
  have w: "le_word [0, 0, 0, 0xF8, 0x5D, 0xCD, 0xCD, 0x41] = 0x41CDCD5DF8000000"
    by (simp add: le_word_def)
  have l: "MsgpackSerializer_loads ref_host no_registry
       (Bytes (Msgpacked (PExtType 0x32 [0, 0, 0, 0xF8, 0x5D, 0xCD, 0xCD, 0x41]))) =
     Inr (PDatetime hour_before None)"
    by (simp add: MsgpackSerializer_loads_def convertToBytes_def msgpack_unpackb_def ext_hook_def
        unpack_d_def w bind_def ref_host_def ref_fromtimestamp_def)
  have r: "MsgpackSerializer_dumps ref_host (\<lambda>t. None) [] (PDatetime billion (Some (TzInfo 3600 True))) =
     Inl (SerializeError ''msgpack cannot serialize datetime with timezone info'', [])"
    by (simp add: msgpack_dumps_datetime_true_tzinfo tz_true_def)
  from f d s l r show ?thesis
    by simp
qed

section \<open>Properties of the UUID encoding\<close>

lemma length_uuid_str: "length (uuid_str u) = 36"
  by (simp add: uuid_str_def hex32_def Let_def)

text \<open>
  The marshal adapter converts the value it is given only: \<open>dumps\<close> falls back to
  \<open>class_to_dict\<close> of the whole value, so a UUID inside a list is not turned into text
  and the list is refused.
\<close>

lemma marshal_nested_uuid_refused:
  "MarshalSerializer_dumps h [] (PList [PUUID u]) =
     Inl (ValueError (''can't serialize type '' @ class_repr ''builtins.list'' @ '' into a dict''), [])"
  by (simp add: MarshalSerializer_dumps_def marshal_dumps_def raise_def value_or_type_error_def
      MarshalSerializer_class_to_dict_def class_to_dict_def type_name_def bind_def)

text \<open>
  C10. For every UUID \<open>u\<close>, the marshal, JSON and msgpack adapters serialize \<open>u\<close>
  to the message they produce for the text \<open>str(u)\<close>, 36 characters: the document
  written holds the text and nothing of the UUID. Deserializing what was serialized
  yields that text, a string and not a UUID. Under JSON and msgpack the same happens to
  a UUID inside a list, since the library calls the hook at every depth. (No type
  replacement is registered for \<open>uuid.UUID\<close>, and the interpreter allows one call.)
\<close>

theorem uuid_serialized_as_text:
  assumes "repl ''uuid.UUID'' = None" and "0 < recursion_limit h"
  shows "MarshalSerializer_dumps h treg (PUUID u) = Inr (Marshalled (PStr (uuid_str u))) \<and>
    JsonSerializer_dumps h repl treg (PUUID u) = Inr (JsonText (JStr (uuid_str u))) \<and>
    MsgpackSerializer_dumps h repl treg (PUUID u) = Inr (Msgpacked (PStr (uuid_str u))) \<and>
    MarshalSerializer_dumps h treg (PStr (uuid_str u)) = Inr (Marshalled (PStr (uuid_str u))) \<and>
    JsonSerializer_dumps h repl treg (PStr (uuid_str u)) = Inr (JsonText (JStr (uuid_str u))) \<and>
    MsgpackSerializer_dumps h repl treg (PStr (uuid_str u)) = Inr (Msgpacked (PStr (uuid_str u))) \<and>
    bind (MarshalSerializer_dumps h treg (PUUID u)) (\<lambda>m. MarshalSerializer_loads h reg (Bytes m)) =
      Inr (PStr (uuid_str u)) \<and>
    bind (JsonSerializer_dumps h repl treg (PUUID u)) (\<lambda>m. JsonSerializer_loads h reg (Bytes m)) =
      Inr (PStr (uuid_str u)) \<and>
    bind (MsgpackSerializer_dumps h repl treg (PUUID u)) (\<lambda>m. MsgpackSerializer_loads h reg (Bytes m)) =
      Inr (PStr (uuid_str u)) \<and>
    JsonSerializer_dumps h repl treg (PList [PUUID u]) = Inr (JsonText (JArray [JStr (uuid_str u)])) \<and>
    MsgpackSerializer_dumps h repl treg (PList [PUUID u]) = Inr (Msgpacked (PList [PStr (uuid_str u)])) \<and>
    length (uuid_str u) = 36 \<and> PStr (uuid_str u) \<noteq> PUUID u"
proof -
  have j: "JsonSerializer_default h repl treg (PUUID u) = Inr (PStr (uuid_str u))"
    using assms by (simp add: JsonSerializer_default_def replace_def type_name_def bind_def)
  have m: "MsgpackSerializer_default h repl treg (PUUID u) = Inr (PStr (uuid_str u))"
    using assms by (simp add: MsgpackSerializer_default_def replace_def type_name_def bind_def)
  have c: "MarshalSerializer_class_to_dict h treg (PUUID u) = Inr (PStr (uuid_str u))"
    by (simp add: MarshalSerializer_class_to_dict_def)
  have md: "MarshalSerializer_dumps h treg (PUUID u) = Inr (Marshalled (PStr (uuid_str u)))"
    by (simp add: MarshalSerializer_dumps_def marshal_dumps_def raise_def value_or_type_error_def c bind_def)
  have mt: "MarshalSerializer_dumps h treg (PStr (uuid_str u)) = Inr (Marshalled (PStr (uuid_str u)))"
    by (simp add: MarshalSerializer_dumps_def marshal_dumps_def)
  have jd: "JsonSerializer_dumps h repl treg (PUUID u) = Inr (JsonText (JStr (uuid_str u)))"
    using assms(2) by (simp add: JsonSerializer_dumps_def json_dumps_def j bind_def)
  have jt: "JsonSerializer_dumps h repl treg (PStr (uuid_str u)) = Inr (JsonText (JStr (uuid_str u)))"
    by (simp add: JsonSerializer_dumps_def json_dumps_def bind_def)
  have jn: "JsonSerializer_dumps h repl treg (PList [PUUID u]) = Inr (JsonText (JArray [JStr (uuid_str u)]))"
    using assms(2) by (simp add: JsonSerializer_dumps_def json_dumps_def j bind_def)
  have pd: "MsgpackSerializer_dumps h repl treg (PUUID u) = Inr (Msgpacked (PStr (uuid_str u)))"
    by (simp add: MsgpackSerializer_dumps_def msgpack_packb_def m bind_def)
  have pt: "MsgpackSerializer_dumps h repl treg (PStr (uuid_str u)) = Inr (Msgpacked (PStr (uuid_str u)))"
    by (simp add: MsgpackSerializer_dumps_def msgpack_packb_def bind_def)
  have pn: "MsgpackSerializer_dumps h repl treg (PList [PUUID u]) = Inr (Msgpacked (PList [PStr (uuid_str u)]))"
    by (simp add: MsgpackSerializer_dumps_def msgpack_packb_def DEFAULT_RECURSE_LIMIT_def m bind_def
        numeral_eq_Suc)
  have ml: "MarshalSerializer_loads h reg (Bytes (Marshalled (PStr (uuid_str u)))) = Inr (PStr (uuid_str u))"
    by (simp add: MarshalSerializer_loads_def marshal_loads_def convertToBytes_def bind_def)
  have jl: "JsonSerializer_loads h reg (Bytes (JsonText (JStr (uuid_str u)))) = Inr (PStr (uuid_str u))"
    by (simp add: JsonSerializer_loads_def convertToBytes_def)
  have pl: "MsgpackSerializer_loads h reg (Bytes (Msgpacked (PStr (uuid_str u)))) = Inr (PStr (uuid_str u))"
    by (simp add: MsgpackSerializer_loads_def msgpack_unpackb_def convertToBytes_def)
  from md mt jd jt jn pd pt pn ml jl pl length_uuid_str [of u] show ?thesis
    by (simp add: bind_def)
qed

theorem uuid_serialized_as_text_witness:
  "MarshalSerializer_dumps ref_host [] (PUUID 0x12345678123456781234567812345678) =
     Inr (Marshalled (PStr ''12345678-1234-5678-1234-567812345678'')) \<and>
   JsonSerializer_dumps ref_host (\<lambda>t. None) [] (PUUID 0x12345678123456781234567812345678) =
     Inr (JsonText (JStr ''12345678-1234-5678-1234-567812345678'')) \<and>
   MsgpackSerializer_dumps ref_host (\<lambda>t. None) [] (PUUID 0x12345678123456781234567812345678) =
     Inr (Msgpacked (PStr ''12345678-1234-5678-1234-567812345678'')) \<and>
   JsonSerializer_loads ref_host no_registry (Bytes (JsonText (JStr ''12345678-1234-5678-1234-567812345678''))) =
     Inr (PStr ''12345678-1234-5678-1234-567812345678'')"
proof -
  let ?u = "0x12345678123456781234567812345678 :: 128 word"
  have s: "uuid_str ?u = ''12345678-1234-5678-1234-567812345678''"
    by code_simp
  have r: "0 < recursion_limit ref_host"
    by (simp add: ref_host_def)
  have l: "JsonSerializer_loads ref_host no_registry (Bytes (JsonText (JStr ''12345678-1234-5678-1234-567812345678''))) =
     Inr (PStr ''12345678-1234-5678-1234-567812345678'')"
    by (simp add: JsonSerializer_loads_def convertToBytes_def)
  from uuid_serialized_as_text [where repl = "\<lambda>t. None" and h = ref_host and treg = "[]" and u = ?u, OF _ r]
  have "MarshalSerializer_dumps ref_host [] (PUUID ?u) = Inr (Marshalled (PStr (uuid_str ?u)))"
    and "JsonSerializer_dumps ref_host (\<lambda>t. None) [] (PUUID ?u) = Inr (JsonText (JStr (uuid_str ?u)))"
    and "MsgpackSerializer_dumps ref_host (\<lambda>t. None) [] (PUUID ?u) = Inr (Msgpacked (PStr (uuid_str ?u)))"
    by simp_all
  with l show ?thesis
    unfolding s by simp
qed

end
